theory Spec2Isabelle
  imports Main "HOL-Library.Multiset"
begin

section \<open>OAuth state store (package auth, OAuthStateStore)\<close>

text \<open>
  Instants of \<^verbatim>\<open>time.Time\<close> and durations of \<^verbatim>\<open>time.Duration\<close> are integers
  counting nanoseconds; \<^verbatim>\<open>time.Now()\<close> is an argument of every operation that
  reads the clock. None of the quantities below comes near the 64-bit range.
\<close>

type_synonym time = int

definition second :: int where
  "second = 1000000000"

definition minute :: int where
  "minute = 60 * second"

text \<open>\<^verbatim>\<open>t.After(u)\<close>: strictly later.\<close>

definition After :: "time \<Rightarrow> time \<Rightarrow> bool" where
  "After t u = (u < t)"

record OAuthState =
  st_UserID :: string
  st_Expiry :: time

type_synonym state_store = "string \<rightharpoonup> OAuthState"

definition NewOAuthStateStore :: state_store where
  "NewOAuthStateStore = Map.empty"

text \<open>
  \<^verbatim>\<open>cleanupExpiredStates\<close>: every entry whose expiry lies strictly before \<open>now\<close> is
  deleted, the others stay.
\<close>

definition cleanupExpiredStates :: "time \<Rightarrow> state_store \<Rightarrow> state_store" where
  "cleanupExpiredStates now s =
     (\<lambda>state. case s state of
        None \<Rightarrow> None
      | Some data \<Rightarrow> if After now (st_Expiry data) then None else Some data)"

datatype state_error = RandReadFailed

text \<open>
  \<^verbatim>\<open>GenerateState\<close>. The argument \<open>rnd\<close> is what \<^verbatim>\<open>rand.Read\<close> followed by
  \<^verbatim>\<open>base64.URLEncoding.EncodeToString\<close> yields: \<open>None\<close> when reading the random
  source failed, otherwise the encoded 32 bytes. The clock is read twice: \<open>now\<close> for
  the expiry, \<open>now'\<close> inside the clean-up.
\<close>

definition GenerateState ::
  "string option \<Rightarrow> time \<Rightarrow> time \<Rightarrow> string \<Rightarrow> state_store \<Rightarrow> (state_error + string) \<times> state_store"
where
  "GenerateState rnd now now' userID s =
     (case rnd of
        None \<Rightarrow> (Inl RandReadFailed, s)
      | Some state \<Rightarrow>
          (Inr state,
           cleanupExpiredStates now'
             (s(state \<mapsto> \<lparr>st_UserID = userID, st_Expiry = now + 15 * minute\<rparr>))))"

text \<open>
  \<^verbatim>\<open>ValidateState\<close> returns the pair \<^verbatim>\<open>(userID, valid)\<close> and the store it leaves
  behind.
\<close>

definition ValidateState ::
  "time \<Rightarrow> string \<Rightarrow> state_store \<Rightarrow> (string \<times> bool) \<times> state_store"
where
  "ValidateState now state s =
     (case s state of
        None \<Rightarrow> (('''', False), s)
      | Some stateData \<Rightarrow>
          if After now (st_Expiry stateData)
          then (('''', False), s(state := None))
          else ((st_UserID stateData, True), s(state := None)))"

text \<open>
  The operations a client of the store can issue, and a run of them. A generation
  names the token value it minted (or \<open>None\<close> when the random source failed).
\<close>

datatype store_op =
    Validate time string
  | Generate "string option" time time string

fun apply_store_op :: "store_op \<Rightarrow> state_store \<Rightarrow> state_store" where
  "apply_store_op (Validate now state) s = snd (ValidateState now state s)"
| "apply_store_op (Generate rnd now now' userID) s = snd (GenerateState rnd now now' userID s)"

fun run_store_ops :: "store_op list \<Rightarrow> state_store \<Rightarrow> state_store" where
  "run_store_ops [] s = s"
| "run_store_ops (opn # ops) s = run_store_ops ops (apply_store_op opn s)"

fun minted :: "store_op \<Rightarrow> string option" where
  "minted (Validate now state) = None"
| "minted (Generate rnd now now' userID) = rnd"

section \<open>Credentials manager and the phase-1 handler (package auth)\<close>

record UserCredentials =
  UserID :: string
  GmailClientID :: string
  GmailSecret :: string
  GmailRefreshToken :: string
  SlackBotToken :: string

text \<open>The field \<^verbatim>\<open>credentials\<close> of \<^verbatim>\<open>CredentialsManager\<close>, keyed by user identifier.\<close>

type_synonym credentials = "string \<rightharpoonup> UserCredentials"

datatype cred_error =
    NoCredentialsFound string
  | SerializeFailed
  | WriteFileFailed

text \<open>The message of an error, as \<^verbatim>\<open>%v\<close> prints it; the cause of an I/O error is left out.\<close>

fun Error :: "cred_error \<Rightarrow> string" where
  "Error (NoCredentialsFound userID) = ''no credentials found for user '' @ userID"
| "Error SerializeFailed = ''error serializing credentials''"
| "Error WriteFileFailed = ''error writing credentials file''"

text \<open>
  \<^verbatim>\<open>CredentialsManager.SaveCredentials\<close>. The map is assigned first; marshalling and
  writing the snapshot file come after it, and their outcome is the argument \<open>io\<close>
  (\<open>None\<close> when both succeed). The returned error is that outcome, and the map is
  updated in every case.
\<close>

definition SaveCredentials ::
  "cred_error option \<Rightarrow> UserCredentials \<Rightarrow> credentials \<Rightarrow> cred_error option \<times> credentials"
where
  "SaveCredentials io creds cm = (io, cm(UserID creds \<mapsto> creds))"

definition GetCredentials :: "credentials \<Rightarrow> string \<Rightarrow> cred_error + UserCredentials" where
  "GetCredentials cm userID =
     (case cm userID of
        None \<Rightarrow> Inl (NoCredentialsFound userID)
      | Some creds \<Rightarrow> Inr creds)"

definition GetSlackToken :: "credentials \<Rightarrow> string \<Rightarrow> cred_error + string" where
  "GetSlackToken cm userID =
     (case GetCredentials cm userID of
        Inl err \<Rightarrow> Inl err
      | Inr creds \<Rightarrow> Inr (SlackBotToken creds))"

subsection \<open>HTTP responses\<close>

datatype body =
    NoBody
  | Text string
  | Json "(string \<times> string) list"

record response =
  status :: nat
  body :: body

definition StatusOK :: nat where "StatusOK = 200"
definition StatusBadRequest :: nat where "StatusBadRequest = 400"
definition StatusNotFound :: nat where "StatusNotFound = 404"
definition StatusMethodNotAllowed :: nat where "StatusMethodNotAllowed = 405"
definition StatusInternalServerError :: nat where "StatusInternalServerError = 500"

text \<open>
  \<^verbatim>\<open>utils.RespondJSON\<close> and \<^verbatim>\<open>utils.RespondError\<close>. The data passed by the handlers
  is always a \<^verbatim>\<open>map[string]string\<close>; the body keeps it as the list of its fields
  rather than as the encoded text.
\<close>

definition RespondJSON :: "nat \<Rightarrow> (string \<times> string) list \<Rightarrow> response" where
  "RespondJSON statusCode data = \<lparr>status = statusCode, body = Json data\<rparr>"

definition RespondError :: "nat \<Rightarrow> string \<Rightarrow> response" where
  "RespondError statusCode message = RespondJSON statusCode [(''error'', message)]"

subsection \<open>Handler.SaveCredentials\<close>

record SaveUserCredentialsRequest =
  req_UserID :: string
  req_GmailClientID :: string
  req_GmailSecret :: string
  req_SlackBotToken :: string
  req_SlackTeamID :: string

record oauth2_Config =
  ClientID :: string
  ClientSecret :: string
  cfg_RedirectURL :: string
  Scopes :: "string list"

text \<open>
  The fields of \<^verbatim>\<open>auth.Handler\<close> the phase-1 handler reads. \<open>RegisterTeam\<close> is
  \<open>None\<close> for a nil function; otherwise it says whether registering the pair
  fails. \<open>AuthCodeURL\<close> stands for \<^verbatim>\<open>oauth2.Config.AuthCodeURL\<close> with
  \<^verbatim>\<open>AccessTypeOffline\<close>, which belongs to a library.
\<close>

record auth_Handler =
  RedirectURL :: string
  SuccessURL :: string
  RegisterTeam :: "(string \<Rightarrow> string \<Rightarrow> bool) option"
  AuthCodeURL :: "oauth2_Config \<Rightarrow> string \<Rightarrow> string"

text \<open>What one call of the handler meets: the outcomes of file I/O, of the random
  source and the two clock readings of \<open>GenerateState\<close>.\<close>

record auth_world =
  w_io :: "cred_error option"
  w_rnd :: "string option"
  w_now :: time
  w_now' :: time

text \<open>
  \<^verbatim>\<open>Handler.SaveCredentials\<close>. The request is its method and the decoded body
  (\<open>None\<close> when decoding fails). The result is the response, the credentials map,
  the state store and the team registrations issued.
\<close>

definition Handler_SaveCredentials ::
  "auth_Handler \<Rightarrow> auth_world \<Rightarrow> string \<Rightarrow> SaveUserCredentialsRequest option \<Rightarrow>
   credentials \<Rightarrow> state_store \<Rightarrow>
   response \<times> credentials \<times> state_store \<times> (string \<times> string) list"
where
  "Handler_SaveCredentials h w method decoded cm store =
     (if method \<noteq> ''POST''
      then (RespondError StatusMethodNotAllowed ''Method not allowed'', cm, store, [])
      else case decoded of
        None \<Rightarrow> (RespondError StatusBadRequest ''Invalid request body'', cm, store, [])
      | Some req \<Rightarrow>
          let userCreds =
                \<lparr>UserID = req_UserID req,
                 GmailClientID = req_GmailClientID req,
                 GmailSecret = req_GmailSecret req,
                 GmailRefreshToken = '''',
                 SlackBotToken = req_SlackBotToken req\<rparr>;
              (err, cm') = SaveCredentials (w_io w) userCreds cm
          in if err \<noteq> None
             then (RespondError StatusInternalServerError ''Error saving credentials'',
                   cm', store, [])
             else
               let register =
                     (if req_SlackTeamID req \<noteq> '''' then RegisterTeam h else None);
                   registered =
                     (case register of
                        None \<Rightarrow> []
                      | Some f \<Rightarrow> [(req_SlackTeamID req, req_UserID req)]);
                   failed =
                     (case register of
                        None \<Rightarrow> False
                      | Some f \<Rightarrow> f (req_SlackTeamID req) (req_UserID req))
               in if failed
                  then (RespondError StatusInternalServerError ''Error registering integration'',
                        cm', store, registered)
                  else
                    let config =
                          \<lparr>ClientID = req_GmailClientID req,
                           ClientSecret = req_GmailSecret req,
                           cfg_RedirectURL = RedirectURL h,
                           Scopes = [''https://www.googleapis.com/auth/gmail.send'']\<rparr>;
                        (generated, store') =
                          GenerateState (w_rnd w) (w_now w) (w_now' w) (req_UserID req) store
                    in case generated of
                         Inl e \<Rightarrow>
                           (RespondError StatusInternalServerError ''Error generating OAuth state'',
                            cm', store', registered)
                       | Inr state \<Rightarrow>
                           (RespondJSON StatusOK [(''auth_url'', AuthCodeURL h config state)],
                            cm', store', registered))"

section \<open>Slack service (package slack)\<close>

text \<open>
  A decoded JSON value as \<^verbatim>\<open>json.Unmarshal\<close> stores it in an \<^verbatim>\<open>interface{}\<close>. An
  object is the list of its fields, each key once; numbers are never inspected by
  the service and keep their text.
\<close>

datatype json =
    JNull
  | JBool bool
  | JNumber string
  | JString string
  | JArray "json list"
  | JObject "(string \<times> json) list"

text \<open>A call either returns or panics.\<close>

datatype 'a go = Done 'a | Panic

text \<open>
  What an HTTP exchange yields, step by step as the service goes through it: building
  the request, \<^verbatim>\<open>client.Do\<close> (which also fails when the context's deadline passes),
  reading the body, decoding it into a \<^verbatim>\<open>map[string]interface{}\<close>.
\<close>

datatype http_reply =
    NewRequestFails
  | DoFails
  | ReadAllFails
  | UnmarshalFails
  | Unmarshalled "(string \<times> json) list"

datatype slack_error =
    SlackTokenError cred_error
  | RequestError
  | TransportError
  | BodyReadError
  | JSONError
  | FetchMembersError "json option"
  | MembersInvalid
  | FetchUserInfoError "json option"
  | UserObjectNotFound
  | ProfileObjectNotFound

text \<open>
  The Slack Web API as one event's handling meets it. \<open>users_info k u\<close> is the reply
  to the \<open>k\<close>-th \<^verbatim>\<open>users.info\<close> request, asking for user \<open>u\<close>: request \<open>0\<close> is the
  sender's, request \<open>Suc i\<close> the one for the member at position \<open>i\<close> of the listing.
\<close>

record slack_api =
  conversations_members :: "string \<Rightarrow> http_reply"
  users_info :: "nat \<Rightarrow> string \<Rightarrow> http_reply"

text \<open>The comma-ok type assertions \<^verbatim>\<open>x.(T)\<close> on a map entry.\<close>

fun as_bool :: "json option \<Rightarrow> bool option" where
  "as_bool (Some (JBool b)) = Some b"
| "as_bool _ = None"

fun as_string :: "json option \<Rightarrow> string option" where
  "as_string (Some (JString s)) = Some s"
| "as_string _ = None"

fun as_array :: "json option \<Rightarrow> json list option" where
  "as_array (Some (JArray xs)) = Some xs"
| "as_array _ = None"

fun as_object :: "json option \<Rightarrow> (string \<times> json) list option" where
  "as_object (Some (JObject obj)) = Some obj"
| "as_object _ = None"

text \<open>
  \<^verbatim>\<open>getUserEmail\<close>, from the decoded reply on. \<^verbatim>\<open>result["ok"].(bool)\<close> has no
  comma-ok form: it panics when the entry is missing or is not a boolean.
\<close>

definition user_info_email :: "(string \<times> json) list \<Rightarrow> (string \<times> slack_error option) go" where
  "user_info_email result =
     (case as_bool (map_of result ''ok'') of
        None \<Rightarrow> Panic
      | Some ok \<Rightarrow>
          if \<not> ok then Done ('''', Some (FetchUserInfoError (map_of result ''error'')))
          else case as_object (map_of result ''user'') of
            None \<Rightarrow> Done ('''', Some UserObjectNotFound)
          | Some user \<Rightarrow>
              (case as_object (map_of user ''profile'') of
                 None \<Rightarrow> Done ('''', Some ProfileObjectNotFound)
               | Some profile \<Rightarrow>
                   (case as_string (map_of profile ''email'') of
                      Some email \<Rightarrow> Done (email, None)
                    | None \<Rightarrow> Done ('''', None))))"

text \<open>
  \<^verbatim>\<open>getUserEmail\<close> returns the pair \<^verbatim>\<open>(email, err)\<close>; \<open>info\<close> answers the request
  it sends.
\<close>

definition getUserEmail ::
  "credentials \<Rightarrow> (string \<Rightarrow> http_reply) \<Rightarrow> string \<Rightarrow> string \<Rightarrow> (string \<times> slack_error option) go"
where
  "getUserEmail cm info ownerID slackUserID =
     (case GetSlackToken cm ownerID of
        Inl err \<Rightarrow> Done ('''', Some (SlackTokenError err))
      | Inr slackToken \<Rightarrow>
          (case info slackUserID of
             NewRequestFails \<Rightarrow> Done ('''', Some RequestError)
           | DoFails \<Rightarrow> Done ('''', Some TransportError)
           | ReadAllFails \<Rightarrow> Done ('''', Some BodyReadError)
           | UnmarshalFails \<Rightarrow> Done ('''', Some JSONError)
           | Unmarshalled result \<Rightarrow> user_info_email result))"

subsection \<open>Fan-out and fan-in: getUserEmails\<close>

record emailResult =
  er_userID :: string
  er_email :: string
  er_err :: "slack_error option"

text \<open>
  The launching loop. \<^verbatim>\<open>id.(string)\<close> panics at the first element that is not a
  string; the identifiers before it have their goroutine started. The result is those
  identifiers and whether the loop panicked.
\<close>

fun launch :: "json list \<Rightarrow> string list \<times> bool" where
  "launch [] = ([], False)"
| "launch (JString slackUserID # ids) =
     (slackUserID # fst (launch ids), snd (launch ids))"
| "launch (_ # ids) = ([], True)"

text \<open>What the goroutine of position \<open>i\<close> computes.\<close>

definition lookup_member ::
  "credentials \<Rightarrow> slack_api \<Rightarrow> string \<Rightarrow> nat \<Rightarrow> string \<Rightarrow> (string \<times> slack_error option) go"
where
  "lookup_member cm api ownerID i slackUserID =
     getUserEmail cm (users_info api (Suc i)) ownerID slackUserID"

fun lookup_members ::
  "credentials \<Rightarrow> slack_api \<Rightarrow> string \<Rightarrow> nat \<Rightarrow> string list \<Rightarrow> (string \<times> slack_error option) go list"
where
  "lookup_members cm api ownerID i [] = []"
| "lookup_members cm api ownerID i (slackUserID # ids) =
     lookup_member cm api ownerID i slackUserID # lookup_members cm api ownerID (Suc i) ids"

text \<open>The value a goroutine sends on \<^verbatim>\<open>resultChan\<close>; one that panicked sends none.\<close>

fun sent :: "string \<times> (string \<times> slack_error option) go \<Rightarrow> emailResult list" where
  "sent (slackUserID, Done (email, err)) =
     [\<lparr>er_userID = slackUserID, er_email = email, er_err = err\<rparr>]"
| "sent (slackUserID, Panic) = []"

text \<open>
  The results reach the channel in an order the scheduler decides: \<open>sent_at i\<close> is the
  instant at which the goroutine of position \<open>i\<close> sends its result. The channel
  delivers them by instant (two results of one instant by position), so every order
  of arrival is that of some \<open>sent_at\<close>.
\<close>

definition arrivals :: "emailResult list \<Rightarrow> (nat \<Rightarrow> nat) \<Rightarrow> emailResult list" where
  "arrivals results sent_at =
     map snd (sort_key fst (zip (map sent_at [0..<length results]) results))"

text \<open>The collecting loop \<^verbatim>\<open>for result := range resultChan\<close>, with \<open>emails\<close> so far.\<close>

fun collect :: "emailResult list \<Rightarrow> string list \<Rightarrow> string list" where
  "collect [] emails = emails"
| "collect (result # rest) emails =
     (if er_err result \<noteq> None then collect rest emails
      else if er_email result \<noteq> '''' then collect rest (emails @ [er_email result])
      else collect rest emails)"

text \<open>The calls a handler makes to its collaborators.\<close>

datatype action =
    TeamLookup string
  | EmailLookup string
  | ListMembers string
  | Dispatch string string string string

text \<open>
  \<^verbatim>\<open>getUserEmails\<close>: the lookups whose goroutines were started, in launching order,
  and the outcome. A panic in the launching loop or in any goroutine ends the call
  (and the process) without a result.
\<close>

definition getUserEmails ::
  "credentials \<Rightarrow> slack_api \<Rightarrow> string \<Rightarrow> json list \<Rightarrow> (nat \<Rightarrow> nat) \<Rightarrow>
   action list \<times> (string list \<times> slack_error option) go"
where
  "getUserEmails cm api ownerID userIDs sent_at =
     (let (started, panicked) = launch userIDs;
          outcomes = lookup_members cm api ownerID 0 started
      in (map EmailLookup started,
          if panicked \<or> Panic \<in> set outcomes then Panic
          else Done (collect (arrivals (concat (map sent (zip started outcomes))) sent_at) [],
                     None)))"

subsection \<open>GetChannelMembers\<close>

definition maxUsers :: nat where
  "maxUsers = 50"

definition GetChannelMembers ::
  "credentials \<Rightarrow> slack_api \<Rightarrow> string \<Rightarrow> string \<Rightarrow> (nat \<Rightarrow> nat) \<Rightarrow>
   action list \<times> (string list \<times> slack_error option) go"
where
  "GetChannelMembers cm api userID channelID sent_at =
     (case GetSlackToken cm userID of
        Inl err \<Rightarrow> ([], Done ([], Some (SlackTokenError err)))
      | Inr slackToken \<Rightarrow>
          (case conversations_members api channelID of
             NewRequestFails \<Rightarrow> ([], Done ([], Some RequestError))
           | DoFails \<Rightarrow> ([], Done ([], Some TransportError))
           | ReadAllFails \<Rightarrow> ([], Done ([], Some BodyReadError))
           | UnmarshalFails \<Rightarrow> ([], Done ([], Some JSONError))
           | Unmarshalled result \<Rightarrow>
               (case as_bool (map_of result ''ok'') of
                  None \<Rightarrow> ([], Panic)
                | Some ok \<Rightarrow>
                    if \<not> ok
                    then ([], Done ([], Some (FetchMembersError (map_of result ''error''))))
                    else case as_array (map_of result ''members'') of
                      None \<Rightarrow> ([], Done ([], Some MembersInvalid))
                    | Some userIDs \<Rightarrow>
                        getUserEmails cm api userID
                          (if length userIDs > maxUsers then take maxUsers userIDs else userIDs)
                          sent_at)))"

subsection \<open>The addresses a list of lookups resolves\<close>

text \<open>
  The address a lookup resolved: the one it returned without an error. For the
  members \<open>ids\<close> of a listing, \<open>resolved_emails\<close> lists the addresses their lookups
  resolve, by position, each as often as it is resolved.
\<close>

fun resolved :: "(string \<times> slack_error option) go \<Rightarrow> string list" where
  "resolved (Done (email, None)) = [email]"
| "resolved (Done (email, Some err)) = []"
| "resolved Panic = []"

definition resolved_emails :: "credentials \<Rightarrow> slack_api \<Rightarrow> string \<Rightarrow> string list \<Rightarrow> string list" where
  "resolved_emails cm api ownerID ids = concat (map resolved (lookup_members cm api ownerID 0 ids))"

section \<open>Webhook handler (package slack, Handler.HandleWebhook)\<close>

text \<open>
  Modelled from the spec: the declarations of \<^verbatim>\<open>SlackChallenge\<close> and \<^verbatim>\<open>SlackEvent\<close>
  (\<^verbatim>\<open>internal/slack/models.go\<close>) are missing from the sources. The records hold the
  fields the handler reads, named as it names them; the inbound shapes
  \<^verbatim>\<open>{type, challenge}\<close> and \<^verbatim>\<open>{type, team_id, event: {type, channel, user, text,
  subtype?, bot_id?}}\<close> are those of the interface description. An absent string
  field decodes to the empty string.
\<close>

record SlackChallenge =
  ch_Type :: string
  ch_Challenge :: string

record SlackInnerEvent =
  in_Type :: string
  in_Channel :: string
  in_User :: string
  in_Text :: string
  in_Subtype :: string
  in_BotID :: string

record SlackEvent =
  ev_Type :: string
  ev_TeamID :: string
  ev_Event :: SlackInnerEvent

text \<open>
  A request: its body cannot be read, or it is read and then decoded twice, once as a
  challenge and once as an event (\<open>None\<close> where \<^verbatim>\<open>json.Unmarshal\<close> returns an error).
\<close>

datatype request =
    BodyUnreadable
  | Payload "SlackChallenge option" "SlackEvent option"

record slack_Handler =
  GetUserIDForTeam :: "string \<Rightarrow> string \<times> bool"

text \<open>\<^verbatim>\<open>strings.Join\<close>.\<close>

fun Join :: "string list \<Rightarrow> string \<Rightarrow> string" where
  "Join [] sep = ''''"
| "Join [elem] sep = elem"
| "Join (elem # rest) sep = elem @ sep @ Join rest sep"

text \<open>The loop that builds \<^verbatim>\<open>recipients\<close> from \<^verbatim>\<open>emails\<close>.\<close>

definition exclude_sender :: "string list \<Rightarrow> string \<Rightarrow> string list" where
  "exclude_sender emails senderEmail =
     filter (\<lambda>email. email \<noteq> senderEmail \<and> email \<noteq> '''') emails"

definition notification_subject :: string where
  "notification_subject = ''New Slack Message in Channel''"

definition notification_message :: "string \<Rightarrow> string \<Rightarrow> string" where
  "notification_message user text =
     ''New Slack message received in channel from user '' @ user @
     '':'' @ [CHR 0x0A, CHR 0x0A] @ text"

text \<open>
  The branch for a message that is neither a bot's nor an edit. A handler returns its
  response (or panics) and the calls it made, in the sequence the code issues them; the
  members' lookups appear in launching order.
\<close>

definition process_message ::
  "credentials \<Rightarrow> slack_api \<Rightarrow> (nat \<Rightarrow> nat) \<Rightarrow> string \<Rightarrow> SlackEvent \<Rightarrow> response go \<times> action list"
where
  "process_message cm api sent_at userID event =
     (let channelID = in_Channel (ev_Event event);
          senderSlackID = in_User (ev_Event event)
      in case getUserEmail cm (users_info api 0) userID senderSlackID of
           Panic \<Rightarrow> (Panic, [EmailLookup senderSlackID])
         | Done (senderEmail, err) \<Rightarrow>
             let (lookups, members) = GetChannelMembers cm api userID channelID sent_at;
                 calls = [EmailLookup senderSlackID, ListMembers channelID] @ lookups
             in case members of
                  Panic \<Rightarrow> (Panic, calls)
                | Done (emails, Some e) \<Rightarrow>
                    (Done (RespondError StatusInternalServerError ''Error fetching users''),
                     calls)
                | Done (emails, None) \<Rightarrow>
                    let recipients = exclude_sender emails senderEmail
                    in if length recipients = 0
                       then (Done \<lparr>status = StatusOK,
                                   body = Text ''No recipients to send email to''\<rparr>,
                             calls)
                       else (Done \<lparr>status = StatusOK,
                                   body = Text ''Message received and processing''\<rparr>,
                             calls @
                             [Dispatch userID (Join recipients '','') notification_subject
                                (notification_message (in_User (ev_Event event))
                                   (in_Text (ev_Event event)))]))"

text \<open>The handler from the decoded event on.\<close>

definition handle_event ::
  "slack_Handler \<Rightarrow> credentials \<Rightarrow> slack_api \<Rightarrow> (nat \<Rightarrow> nat) \<Rightarrow> SlackEvent \<Rightarrow>
   response go \<times> action list"
where
  "handle_event h cm api sent_at event =
     (let unhandled = Done \<lparr>status = StatusOK, body = Text ''Event received''\<rparr>
      in if ev_Type event = ''event_callback''
         then
           if ev_TeamID event = ''''
           then (Done (RespondError StatusBadRequest ''No team ID in event''), [])
           else
             let (userID, exists) = GetUserIDForTeam h (ev_TeamID event)
             in if \<not> exists
                then (Done (RespondError StatusNotFound ''Integration not found''),
                      [TeamLookup (ev_TeamID event)])
                else if in_Type (ev_Event event) = ''message''
                then
                  if in_BotID (ev_Event event) \<noteq> '''' \<or>
                     in_Subtype (ev_Event event) = ''message_changed'' \<or>
                     in_Subtype (ev_Event event) = ''bot_message''
                  then (Done \<lparr>status = StatusOK, body = NoBody\<rparr>,
                        [TeamLookup (ev_TeamID event)])
                  else
                    let (resp, calls) = process_message cm api sent_at userID event
                    in (resp, TeamLookup (ev_TeamID event) # calls)
                else (unhandled, [TeamLookup (ev_TeamID event)])
         else (unhandled, []))"

definition HandleWebhook ::
  "slack_Handler \<Rightarrow> credentials \<Rightarrow> slack_api \<Rightarrow> (nat \<Rightarrow> nat) \<Rightarrow> request \<Rightarrow>
   response go \<times> action list"
where
  "HandleWebhook h cm api sent_at r =
     (case r of
        BodyUnreadable \<Rightarrow> (Done (RespondError StatusBadRequest ''Invalid request''), [])
      | Payload challenge event \<Rightarrow>
          (case (case challenge of
                   None \<Rightarrow> None
                 | Some c \<Rightarrow> if ch_Type c = ''url_verification'' then Some c else None) of
             Some c \<Rightarrow>
               (Done (RespondJSON StatusOK [(''challenge'', ch_Challenge c)]), [])
           | None \<Rightarrow>
               (case event of
                  None \<Rightarrow> (Done (RespondError StatusBadRequest ''Invalid event JSON''), [])
                | Some ev \<Rightarrow> handle_event h cm api sent_at ev)))"

text \<open>
  The recipient list in the words of the specification: the addresses the members
  resolve to, without the sender's, each one once.
\<close>

definition spec_recipients :: "string list \<Rightarrow> string \<Rightarrow> string list" where
  "spec_recipients member_emails senderEmail =
     remdups (filter (\<lambda>email. email \<noteq> senderEmail) member_emails)"

section \<open>Gmail service (package gmail, Service.SendEmail)\<close>

text \<open>
  A \<^verbatim>\<open>*gmail.Service\<close> is known by the credentials its client was built from. Errors of
  the libraries are kept as their messages.
\<close>

datatype gmail_Service = Service UserCredentials

datatype gmail_error =
    ServiceRetriesFailed string
  | ProfileFailed string
  | SendRetriesFailed string

text \<open>
  What one call of \<^verbatim>\<open>SendEmail\<close> meets. \<open>new_service k\<close> is the outcome of
  \<^verbatim>\<open>gmail.NewService\<close> in the \<open>k\<close>-th call of \<^verbatim>\<open>GetGmailService\<close> (\<open>None\<close>: no error),
  \<open>get_profile\<close> the outcome of \<^verbatim>\<open>Users.GetProfile("me")\<close> (the error or the address),
  \<open>send k raw\<close> the outcome of the \<open>k\<close>-th \<^verbatim>\<open>Users.Messages.Send\<close> (the error or the
  message identifier), \<open>base64\<close> is \<^verbatim>\<open>base64.URLEncoding.EncodeToString\<close>.
\<close>

record gmail_world =
  new_service :: "nat \<Rightarrow> string option"
  get_profile :: "string + string"
  send :: "nat \<Rightarrow> string \<Rightarrow> string + string"
  base64 :: "string \<Rightarrow> string"

text \<open>The calls \<^verbatim>\<open>SendEmail\<close> makes, \<^verbatim>\<open>time.Sleep\<close> with its duration among them.\<close>

datatype gmail_call =
    CallGetGmailService
  | Sleep int
  | CallGetProfile
  | CallSend string

text \<open>
  \<^verbatim>\<open>CredentialsManager.GetGmailService\<close> returns the pair \<^verbatim>\<open>(srv, err)\<close>; \<open>created\<close> is
  the outcome of \<^verbatim>\<open>gmail.NewService\<close>.
\<close>

definition GetGmailService ::
  "credentials \<Rightarrow> string option \<Rightarrow> string \<Rightarrow> gmail_Service option \<times> string option"
where
  "GetGmailService cm created userID =
     (case GetCredentials cm userID of
        Inl err \<Rightarrow> (None, Some (''failed to get credentials: '' @ Error err))
      | Inr creds \<Rightarrow>
          (case created of
             Some err \<Rightarrow> (None, Some (''unable to create Gmail service: '' @ err))
           | None \<Rightarrow> (Some (Service creds), None)))"

text \<open>
  The first retry loop, entered at \<open>attempt\<close> with the current \<open>backoff\<close>, the current
  values of \<^verbatim>\<open>srv\<close> and \<^verbatim>\<open>err\<close> and the calls made so far. It returns \<^verbatim>\<open>srv\<close>, \<^verbatim>\<open>err\<close>
  and the calls.
\<close>

function service_loop ::
  "(nat \<Rightarrow> gmail_Service option \<times> string option) \<Rightarrow> nat \<Rightarrow> int \<Rightarrow>
   gmail_Service option \<Rightarrow> string option \<Rightarrow> gmail_call list \<Rightarrow>
   gmail_Service option \<times> string option \<times> gmail_call list"
where
  "service_loop get attempt backoff srv err calls =
     (if attempt \<le> 3
      then
        (let (srv', err') = get attempt;
             calls' = calls @ [CallGetGmailService]
         in if err' = None then (srv', err', calls')
            else if attempt < 3
            then service_loop get (attempt + 1) (backoff * 2) srv' err' (calls' @ [Sleep backoff])
            else service_loop get (attempt + 1) backoff srv' err' calls')
      else (srv, err, calls))"
  by pat_completeness auto
termination
  by (relation "measure (\<lambda>(get, attempt, backoff, srv, err, calls). 4 - attempt)") auto

text \<open>
  The second retry loop, over \<^verbatim>\<open>Users.Messages.Send\<close>; \<open>submit k\<close> is the pair
  \<^verbatim>\<open>(response, err)\<close> of the \<open>k\<close>-th submission, a response being its message identifier.
\<close>

function send_loop ::
  "(nat \<Rightarrow> string option \<times> string option) \<Rightarrow> string \<Rightarrow> nat \<Rightarrow> int \<Rightarrow>
   string option \<Rightarrow> string option \<Rightarrow> gmail_call list \<Rightarrow>
   string option \<times> string option \<times> gmail_call list"
where
  "send_loop submit raw attempt backoff response err calls =
     (if attempt \<le> 3
      then
        (let (response', err') = submit attempt;
             calls' = calls @ [CallSend raw]
         in if err' = None then (response', err', calls')
            else if attempt < 3
            then send_loop submit raw (attempt + 1) (backoff * 2) response' err'
                   (calls' @ [Sleep backoff])
            else send_loop submit raw (attempt + 1) backoff response' err' calls')
      else (response, err, calls))"
  by pat_completeness auto
termination
  by (relation "measure (\<lambda>(submit, raw, attempt, backoff, response, err, calls). 4 - attempt)")
     auto

text \<open>\<^verbatim>\<open>strings.ReplaceAll\<close> for one-character strings, and \<^verbatim>\<open>strings.TrimRight\<close>.\<close>

definition ReplaceAll :: "string \<Rightarrow> char \<Rightarrow> char \<Rightarrow> string" where
  "ReplaceAll s old new = map (\<lambda>c. if c = old then new else c) s"

definition TrimRight :: "string \<Rightarrow> string \<Rightarrow> string" where
  "TrimRight s cutset = rev (dropWhile (\<lambda>c. c \<in> set cutset) (rev s))"

definition CRLF :: string where
  "CRLF = [CHR 0x0D, CHR 0x0A]"

definition mime_message :: "string \<Rightarrow> string \<Rightarrow> string \<Rightarrow> string \<Rightarrow> string" where
  "mime_message fromEmail to subject messageText =
     ''From: '' @ fromEmail @ CRLF @
     ''To: '' @ to @ CRLF @
     ''Subject: '' @ subject @ CRLF @
     ''MIME-Version: 1.0'' @ CRLF @
     ''Content-Type: text/plain; charset='' @ [CHR 0x22] @ ''UTF-8'' @ [CHR 0x22] @ CRLF @ CRLF @
     messageText"

text \<open>The value of \<^verbatim>\<open>encodedMsg\<close>: the message as it is submitted.\<close>

definition raw_message :: "gmail_world \<Rightarrow> string \<Rightarrow> string \<Rightarrow> string \<Rightarrow> string \<Rightarrow> string" where
  "raw_message w fromEmail to subject messageText =
     (let msg = mime_message fromEmail to subject messageText;
          encodedMsg = base64 w msg;
          encodedMsg = ReplaceAll encodedMsg (CHR ''+'') (CHR ''-'');
          encodedMsg = ReplaceAll encodedMsg (CHR ''/'') (CHR ''_'');
          encodedMsg = TrimRight encodedMsg ''=''
      in encodedMsg)"

text \<open>
  A call's result made into the pair the loops assign: \<^verbatim>\<open>(response, err)\<close>.
\<close>

definition as_pair :: "string + string \<Rightarrow> string option \<times> string option" where
  "as_pair r = (case r of Inl err \<Rightarrow> (None, Some err) | Inr v \<Rightarrow> (Some v, None))"

text \<open>
  \<^verbatim>\<open>SendEmail\<close> returns its error (\<open>None\<close> for nil) and the calls it made. Using a nil
  \<^verbatim>\<open>srv\<close> or \<^verbatim>\<open>response\<close> would panic.
\<close>

definition SendEmail ::
  "credentials \<Rightarrow> gmail_world \<Rightarrow> string \<Rightarrow> string \<Rightarrow> string \<Rightarrow> string \<Rightarrow>
   gmail_error option go \<times> gmail_call list"
where
  "SendEmail cm w userID to subject messageText =
     (let (srv, err, calls) =
            service_loop (\<lambda>attempt. GetGmailService cm (new_service w attempt) userID)
              1 (1 * second) None None []
      in case err of
           Some e \<Rightarrow> (Done (Some (ServiceRetriesFailed e)), calls)
         | None \<Rightarrow>
             (case srv of
                None \<Rightarrow> (Panic, calls)
              | Some service \<Rightarrow>
                  (case get_profile w of
                     Inl e \<Rightarrow> (Done (Some (ProfileFailed e)), calls @ [CallGetProfile])
                   | Inr fromEmail \<Rightarrow>
                       let encodedMsg = raw_message w fromEmail to subject messageText;
                           (response, err2, calls2) =
                             send_loop (\<lambda>attempt. as_pair (send w attempt encodedMsg))
                               encodedMsg 1 (1 * second) None None []
                       in case err2 of
                            Some e \<Rightarrow>
                              (Done (Some (SendRetriesFailed e)),
                               calls @ [CallGetProfile] @ calls2)
                          | None \<Rightarrow>
                              (case response of
                                 None \<Rightarrow> (Panic, calls @ [CallGetProfile] @ calls2)
                               | Some sent_message \<Rightarrow>
                                   (Done None, calls @ [CallGetProfile] @ calls2)))))"

section \<open>The admission gate of getUserEmails\<close>

text \<open>
  The goroutines \<^verbatim>\<open>getUserEmails\<close> starts, interleaved. One goroutine is at one of these
  points: started and waiting at \<^verbatim>\<open>semaphore <- struct{}{}\<close>; holding a slot, inside
  \<^verbatim>\<open>getUserEmail\<close>; back from the lookup, its result not yet sent; result sent on
  \<^verbatim>\<open>resultChan\<close>, the deferred \<^verbatim>\<open><-semaphore\<close> still to run; slot released.
\<close>

datatype pc = Waiting | InFlight | Returned | Delivered | Finished

text \<open>
  The state of the fan-out: the point each goroutine is at, by position; the number of
  values buffered in \<^verbatim>\<open>semaphore\<close>; the positions whose results are buffered in
  \<^verbatim>\<open>resultChan\<close>.
\<close>

record fanout =
  pcs :: "pc list"
  semaphore :: nat
  resultChan :: "nat list"

text \<open>\<^verbatim>\<open>make(chan struct{}, 5)\<close>.\<close>

definition capacity :: nat where
  "capacity = 5"

definition start :: "nat \<Rightarrow> fanout" where
  "start n = \<lparr>pcs = replicate n Waiting, semaphore = 0, resultChan = []\<rparr>"

text \<open>
  The moves of the scheduler. A send on a buffered channel goes through only while the
  buffer has room: a goroutine acquires only while fewer than five values are in
  \<^verbatim>\<open>semaphore\<close>, and delivers only while \<^verbatim>\<open>resultChan\<close>, whose buffer has one place per
  goroutine, has room. \<open>Collect\<close> is the collecting loop taking one result. A move that
  cannot be made yields \<open>None\<close>.
\<close>

datatype move =
    Acquire nat
  | Return nat
  | Deliver nat
  | Release nat
  | Collect

definition at :: "fanout \<Rightarrow> nat \<Rightarrow> pc \<Rightarrow> bool" where
  "at s i p = (i < length (pcs s) \<and> pcs s ! i = p)"

fun step :: "move \<Rightarrow> fanout \<Rightarrow> fanout option" where
  "step (Acquire i) s =
     (if at s i Waiting \<and> semaphore s < capacity
      then Some (s\<lparr>pcs := (pcs s)[i := InFlight], semaphore := semaphore s + 1\<rparr>)
      else None)"
| "step (Return i) s =
     (if at s i InFlight
      then Some (s\<lparr>pcs := (pcs s)[i := Returned]\<rparr>)
      else None)"
| "step (Deliver i) s =
     (if at s i Returned \<and> length (resultChan s) < length (pcs s)
      then Some (s\<lparr>pcs := (pcs s)[i := Delivered], resultChan := resultChan s @ [i]\<rparr>)
      else None)"
| "step (Release i) s =
     (if at s i Delivered
      then Some (s\<lparr>pcs := (pcs s)[i := Finished], semaphore := semaphore s - 1\<rparr>)
      else None)"
| "step Collect s =
     (case resultChan s of
        [] \<Rightarrow> None
      | i # rest \<Rightarrow> Some (s\<lparr>resultChan := rest\<rparr>))"

fun run :: "move list \<Rightarrow> fanout \<Rightarrow> fanout option" where
  "run [] s = Some s"
| "run (m # ms) s = (case step m s of None \<Rightarrow> None | Some s' \<Rightarrow> run ms s')"

text \<open>The lookups in flight, and the goroutines holding a slot.\<close>

definition in_flight :: "fanout \<Rightarrow> nat" where
  "in_flight s = length (filter (\<lambda>p. p = InFlight) (pcs s))"

fun holding :: "pc \<Rightarrow> bool" where
  "holding InFlight = True"
| "holding Returned = True"
| "holding Delivered = True"
| "holding Waiting = False"
| "holding Finished = False"

definition holders :: "fanout \<Rightarrow> nat" where
  "holders s = length (filter holding (pcs s))"

section \<open>Concrete inputs\<close>

text \<open>
  The scenario of the specification: team \<open>T1\<close> is mapped to \<open>owner1\<close>, channel \<open>C1\<close> has
  the members \<open>U1\<close>, \<open>U2\<close>, \<open>U3\<close>, whose profiles carry \<open>a@x.com\<close>, \<open>b@x.com\<close> and no
  address.
\<close>

definition ex_creds :: UserCredentials where
  "ex_creds =
     \<lparr>UserID = ''owner1'', GmailClientID = ''client-1'', GmailSecret = ''secret-1'',
      GmailRefreshToken = ''refresh-1'', SlackBotToken = ''xoxb-1''\<rparr>"

definition ex_cm :: credentials where
  "ex_cm = [''owner1'' \<mapsto> ex_creds]"

definition ex_handler :: slack_Handler where
  "ex_handler =
     \<lparr>GetUserIDForTeam = (\<lambda>team. if team = ''T1'' then (''owner1'', True) else ('''', False))\<rparr>"

definition profile_reply :: "(string \<times> json) list \<Rightarrow> http_reply" where
  "profile_reply profile =
     Unmarshalled [(''ok'', JBool True), (''user'', JObject [(''profile'', JObject profile)])]"

definition members_reply :: "string list \<Rightarrow> http_reply" where
  "members_reply ids =
     Unmarshalled [(''ok'', JBool True), (''members'', JArray (map JString ids))]"

definition ex_api :: slack_api where
  "ex_api =
     \<lparr>conversations_members =
        (\<lambda>channel. if channel = ''C1'' then members_reply [''U1'', ''U2'', ''U3''] else DoFails),
      users_info =
        (\<lambda>k user.
           if user = ''U1'' then profile_reply [(''email'', JString ''a@x.com'')]
           else if user = ''U2'' then profile_reply [(''email'', JString ''b@x.com'')]
           else if user = ''U3'' then profile_reply [(''real_name'', JString ''Carol'')]
           else DoFails)\<rparr>"

text \<open>The same channel when \<open>U3\<close> publishes the address \<open>U2\<close> publishes.\<close>

definition ex_api_shared :: slack_api where
  "ex_api_shared =
     ex_api\<lparr>users_info :=
        (\<lambda>k user.
           if user = ''U1'' then profile_reply [(''email'', JString ''a@x.com'')]
           else if user = ''U2'' \<or> user = ''U3'' then profile_reply [(''email'', JString ''b@x.com'')]
           else DoFails)\<rparr>"

definition ex_inner :: "string \<Rightarrow> SlackInnerEvent" where
  "ex_inner kind =
     \<lparr>in_Type = kind, in_Channel = ''C1'', in_User = ''U1'', in_Text = ''hi'',
      in_Subtype = '''', in_BotID = ''''\<rparr>"

definition ex_event :: "string \<Rightarrow> string \<Rightarrow> SlackEvent" where
  "ex_event team kind = \<lparr>ev_Type = ''event_callback'', ev_TeamID = team, ev_Event = ex_inner kind\<rparr>"

text \<open>A phase-1 request of \<open>owner1\<close>, who already holds a refresh token.\<close>

definition ex_save_request :: SaveUserCredentialsRequest where
  "ex_save_request =
     \<lparr>req_UserID = ''owner1'', req_GmailClientID = ''client-1'', req_GmailSecret = ''secret-1'',
      req_SlackBotToken = ''xoxb-2'', req_SlackTeamID = ''T1''\<rparr>"

definition ex_auth_handler :: auth_Handler where
  "ex_auth_handler =
     \<lparr>RedirectURL = ''https://app.example/oauth/callback'',
      SuccessURL = ''https://app.example/success'',
      RegisterTeam = Some (\<lambda>team user. False),
      AuthCodeURL = (\<lambda>config state. ''https://accounts.example/auth?state='' @ state)\<rparr>"

definition ex_auth_world :: auth_world where
  "ex_auth_world = \<lparr>w_io = None, w_rnd = Some ''tok'', w_now = 0, w_now' = 1\<rparr>"

text \<open>A channel of 53 members \<open>U\<close>, \<open>U1\<close>, \<open>U11\<close>, \<dots>, none of whom publishes an address.\<close>

definition ex_member :: "nat \<Rightarrow> string" where
  "ex_member n = ''U'' @ replicate n (CHR ''1'')"

definition ex_large_listing :: "(string \<times> json) list" where
  "ex_large_listing =
     [(''ok'', JBool True), (''members'', JArray (map JString (map ex_member [0..<53])))]"

definition ex_api_large :: slack_api where
  "ex_api_large =
     \<lparr>conversations_members = (\<lambda>channel. Unmarshalled ex_large_listing),
      users_info = (\<lambda>k user. profile_reply [])\<rparr>"

text \<open>
  Two mail services: one whose client is built at the third attempt and which then
  refuses every submission, and one whose client is never built.
\<close>

definition ex_gmail :: gmail_world where
  "ex_gmail =
     \<lparr>new_service = (\<lambda>k. if k < 3 then Some ''connection refused'' else None),
      get_profile = Inr ''me@x.com'',
      send = (\<lambda>k raw. Inl ''quota exceeded''),
      base64 = (\<lambda>msg. ''QUJD+/=='')\<rparr>"

definition ex_gmail_down :: gmail_world where
  "ex_gmail_down = ex_gmail\<lparr>new_service := (\<lambda>k. Some ''connection refused'')\<rparr>"

text \<open>
  The channel of the scenario when the reply to the lookup of \<open>U3\<close> is the JSON object
  \<^verbatim>\<open>{}\<close>: it decodes without an error and has no \<open>ok\<close> field.
\<close>

definition ex_api_malformed :: slack_api where
  "ex_api_malformed =
     ex_api\<lparr>users_info :=
        (\<lambda>k user.
           if user = ''U1'' then profile_reply [(''email'', JString ''a@x.com'')]
           else if user = ''U2'' then profile_reply [(''email'', JString ''b@x.com'')]
           else if user = ''U3'' then Unmarshalled []
           else DoFails)\<rparr>"

section \<open>Properties of the state store\<close>

lemma ValidateState_removes: "snd (ValidateState now state s) state = None"
  by (simp add: ValidateState_def split: option.splits)

lemma ValidateState_absent:
  "s state = None \<Longrightarrow> ValidateState now state s = (('''', False), s)"
  by (simp add: ValidateState_def)

lemma apply_store_op_absent:
  assumes "s tok = None" and "minted opn \<noteq> Some tok"
  shows "apply_store_op opn s tok = None"
proof (cases opn)
  case (Validate now state)
  with assms show ?thesis
    by (simp add: ValidateState_def split: option.splits)
next
  case (Generate rnd now now' userID)
  with assms show ?thesis
    by (auto simp: GenerateState_def cleanupExpiredStates_def split: option.splits)
qed

lemma run_store_ops_absent:
  "s tok = None \<Longrightarrow> \<forall>opn \<in> set ops. minted opn \<noteq> Some tok
     \<Longrightarrow> run_store_ops ops s tok = None"
proof (induction ops arbitrary: s)
  case Nil
  then show ?case by simp
next
  case (Cons opn ops)
  from Cons.prems have "apply_store_op opn s tok = None"
    by (simp add: apply_store_op_absent)
  with Cons show ?case by simp
qed

text \<open>
  C2. A token validates successfully at most once. Once \<open>ValidateState\<close> has
  answered valid for a token value, every later validation of that value answers
  invalid, whatever the clock reads then and whatever other validations and
  generations (of other token values) happened in between.
\<close>

theorem ValidateState_at_most_once:
  assumes "ValidateState now tok s = ((uid, True), s')"
    and "\<forall>opn \<in> set ops. minted opn \<noteq> Some tok"
  shows "fst (ValidateState later tok (run_store_ops ops s')) = ('''', False)"
proof -
  from assms(1) have "s' = snd (ValidateState now tok s)" by simp
  then have "s' tok = None" by (simp add: ValidateState_removes)
  with assms(2) have "run_store_ops ops s' tok = None"
    by (simp add: run_store_ops_absent)
  then show ?thesis by (simp add: ValidateState_absent)
qed

theorem ValidateState_at_most_once_witness:
  "ValidateState 50 ''tok''
       [''tok'' \<mapsto> \<lparr>st_UserID = ''owner1'', st_Expiry = 100\<rparr>]
     = ((''owner1'', True),
        [''tok'' \<mapsto> \<lparr>st_UserID = ''owner1'', st_Expiry = 100\<rparr>](''tok'' := None))
   \<and> minted (Validate 60 ''other'') \<noteq> Some ''tok''
   \<and> minted (Generate (Some ''new'') 70 71 ''owner2'') \<noteq> Some ''tok''
   \<and> minted (Validate 80 ''tok'') \<noteq> Some ''tok''
   \<and> fst (ValidateState 90 ''tok''
            (run_store_ops
               [Validate 60 ''other'', Generate (Some ''new'') 70 71 ''owner2'',
                Validate 80 ''tok'']
               ([''tok'' \<mapsto> \<lparr>st_UserID = ''owner1'', st_Expiry = 100\<rparr>](''tok'' := None))))
     = ('''', False)"
proof -
  have valid: "ValidateState 50 ''tok''
       [''tok'' \<mapsto> \<lparr>st_UserID = ''owner1'', st_Expiry = 100\<rparr>]
     = ((''owner1'', True),
        [''tok'' \<mapsto> \<lparr>st_UserID = ''owner1'', st_Expiry = 100\<rparr>](''tok'' := None))"
    by (simp add: ValidateState_def After_def)
  have others: "\<forall>opn \<in> set [Validate 60 ''other'', Generate (Some ''new'') 70 71 ''owner2'',
                      Validate 80 ''tok'']. minted opn \<noteq> Some ''tok''"
    by simp
  from ValidateState_at_most_once [OF valid others] valid show ?thesis
    by simp
qed

text \<open>
  C8. A token whose expiry lies before the clock reading at validation is reported
  invalid, although it was never validated before (it is still in the store), and its
  entry is removed.
\<close>

theorem ValidateState_expired:
  assumes "s tok = Some stateData" and "st_Expiry stateData < now"
  shows "ValidateState now tok s = (('''', False), s(tok := None))"
  using assms by (simp add: ValidateState_def After_def)

theorem ValidateState_expired_witness:
  "[''tok'' \<mapsto> \<lparr>st_UserID = ''owner1'', st_Expiry = 100\<rparr>] ''tok''
     = Some \<lparr>st_UserID = ''owner1'', st_Expiry = 100\<rparr>
   \<and> st_Expiry \<lparr>st_UserID = ''owner1'', st_Expiry = 100\<rparr> < 101
   \<and> ValidateState 101 ''tok'' [''tok'' \<mapsto> \<lparr>st_UserID = ''owner1'', st_Expiry = 100\<rparr>]
     = (('''', False),
        [''tok'' \<mapsto> \<lparr>st_UserID = ''owner1'', st_Expiry = 100\<rparr>](''tok'' := None))
   \<and> snd (ValidateState 101 ''tok''
            [''tok'' \<mapsto> \<lparr>st_UserID = ''owner1'', st_Expiry = 100\<rparr>]) ''tok'' = None"
proof -
  have present: "[''tok'' \<mapsto> \<lparr>st_UserID = ''owner1'', st_Expiry = 100\<rparr>] ''tok''
     = Some \<lparr>st_UserID = ''owner1'', st_Expiry = 100\<rparr>"
    by simp
  have expired: "st_Expiry \<lparr>st_UserID = ''owner1'', st_Expiry = 100\<rparr> < 101"
    by simp
  from ValidateState_expired
         [of "[''tok'' \<mapsto> \<lparr>st_UserID = ''owner1'', st_Expiry = 100\<rparr>]" "''tok''"
             "\<lparr>st_UserID = ''owner1'', st_Expiry = 100\<rparr>" 101]
       present expired
  show ?thesis by simp
qed

section \<open>Properties of the phase-1 handler\<close>

text \<open>
  C10. For a user who holds a stored refresh token, a phase-1 save (a \<open>POST\<close> whose body
  decodes) replaces the user's whole record with one built from the request, whose
  \<open>GmailRefreshToken\<close> is empty: the stored refresh token is erased, not kept. This
  holds whatever the file write, the team registration and the state generation do
  afterwards; the records of other users stay as they are.
\<close>

theorem Handler_SaveCredentials_erases_refresh_token:
  assumes "cm (req_UserID req) = Some old"
    and "GmailRefreshToken old \<noteq> ''''"
  shows "fst (snd (Handler_SaveCredentials h w ''POST'' (Some req) cm store)) (req_UserID req)
           = Some \<lparr>UserID = req_UserID req, GmailClientID = req_GmailClientID req,
                    GmailSecret = req_GmailSecret req, GmailRefreshToken = '''',
                    SlackBotToken = req_SlackBotToken req\<rparr>
       \<and> fst (snd (Handler_SaveCredentials h w ''POST'' (Some req) cm store)) (req_UserID req)
           \<noteq> cm (req_UserID req)
       \<and> (\<forall>other. other \<noteq> req_UserID req \<longrightarrow>
             fst (snd (Handler_SaveCredentials h w ''POST'' (Some req) cm store)) other = cm other)"
proof -
  have saved: "fst (snd (Handler_SaveCredentials h w ''POST'' (Some req) cm store))
               = cm(req_UserID req \<mapsto>
                     \<lparr>UserID = req_UserID req, GmailClientID = req_GmailClientID req,
                      GmailSecret = req_GmailSecret req, GmailRefreshToken = '''',
                      SlackBotToken = req_SlackBotToken req\<rparr>)"
    by (simp add: Handler_SaveCredentials_def SaveCredentials_def Let_def
        split: prod.splits sum.splits option.splits)
  from assms show ?thesis
    unfolding saved by auto
qed

theorem Handler_SaveCredentials_erases_refresh_token_witness:
  "ex_cm (req_UserID ex_save_request) = Some ex_creds
   \<and> GmailRefreshToken ex_creds = ''refresh-1''
   \<and> GmailRefreshToken ex_creds \<noteq> ''''
   \<and> fst (snd (Handler_SaveCredentials ex_auth_handler ex_auth_world ''POST''
                 (Some ex_save_request) ex_cm NewOAuthStateStore)) ''owner1''
       = Some \<lparr>UserID = ''owner1'', GmailClientID = ''client-1'', GmailSecret = ''secret-1'',
                GmailRefreshToken = '''', SlackBotToken = ''xoxb-2''\<rparr>"
proof -
  have stored: "ex_cm (req_UserID ex_save_request) = Some ex_creds"
    by (simp add: ex_cm_def ex_save_request_def)
  have token: "GmailRefreshToken ex_creds = ''refresh-1''"
    by (simp add: ex_creds_def)
  then have held: "GmailRefreshToken ex_creds \<noteq> ''''"
    by simp
  from Handler_SaveCredentials_erases_refresh_token
         [where cm = ex_cm and req = ex_save_request and old = ex_creds
            and h = ex_auth_handler and w = ex_auth_world and store = NewOAuthStateStore]
       stored token held
  show ?thesis by (simp add: ex_save_request_def)
qed

section \<open>Properties of the fan-in\<close>

lemma collect_eq:
  "collect rs acc = acc @ map er_email (filter (\<lambda>r. er_err r = None \<and> er_email r \<noteq> '''') rs)"
  by (induction rs arbitrary: acc) auto

lemma mset_arrivals: "mset (arrivals results sent_at) = mset results"
proof -
  let ?zs = "zip (map sent_at [0..<length results]) results"
  have unzip: "map snd ?zs = results"
    by (simp add: map_snd_zip)
  have "mset (arrivals results sent_at) = image_mset snd (mset (sort_key fst ?zs))"
    by (simp only: arrivals_def mset_map)
  also have "\<dots> = image_mset snd (mset ?zs)"
    by (simp only: mset_sort)
  also have "\<dots> = mset (map snd ?zs)"
    by (simp only: mset_map)
  finally show ?thesis
    by (simp only: unzip)
qed

lemma launch_strings: "launch (map JString ids) = (ids, False)"
  by (induction ids) auto

lemma length_lookup_members: "length (lookup_members cm api ownerID i ids) = length ids"
  by (induction ids arbitrary: i) auto

lemma sent_resolved:
  "length ids = length outs \<Longrightarrow> Panic \<notin> set outs \<Longrightarrow>
   map er_email (filter (\<lambda>r. er_err r = None \<and> er_email r \<noteq> '''')
                   (concat (map sent (zip ids outs))))
   = filter (\<lambda>e. e \<noteq> '''') (concat (map resolved outs))"
proof (induction ids outs rule: list_induct2)
  case Nil
  then show ?case by simp
next
  case (Cons u ids out outs)
  then obtain email err where out: "out = Done (email, err)"
    by (cases out) auto
  with Cons show ?case by (cases err) auto
qed

lemma getUserEmails_strings:
  assumes "Panic \<notin> set (lookup_members cm api ownerID 0 ids)"
  shows "\<exists>emails. getUserEmails cm api ownerID (map JString ids) sent_at
                    = (map EmailLookup ids, Done (emails, None))
                 \<and> mset emails = filter_mset (\<lambda>e. e \<noteq> '''') (mset (resolved_emails cm api ownerID ids))"
proof -
  let ?outs = "lookup_members cm api ownerID 0 ids"
  let ?results = "concat (map sent (zip ids ?outs))"
  let ?good = "\<lambda>r. er_err r = None \<and> er_email r \<noteq> ''''"
  let ?emails = "collect (arrivals ?results sent_at) []"
  have run: "getUserEmails cm api ownerID (map JString ids) sent_at
             = (map EmailLookup ids, Done (?emails, None))"
    using assms by (simp add: getUserEmails_def launch_strings)
  have "mset ?emails = image_mset er_email (filter_mset ?good (mset (arrivals ?results sent_at)))"
    by (simp add: collect_eq)
  also have "\<dots> = mset (map er_email (filter ?good ?results))"
    by (simp add: mset_arrivals)
  also have "\<dots> = mset (filter (\<lambda>e. e \<noteq> '''') (concat (map resolved ?outs)))"
    using assms by (simp add: sent_resolved length_lookup_members)
  finally have "mset ?emails = filter_mset (\<lambda>e. e \<noteq> '''') (mset (resolved_emails cm api ownerID ids))"
    by (simp add: resolved_emails_def)
  with run show ?thesis by blast
qed

lemma launch_no_panic: "\<not> snd (launch js) \<Longrightarrow> js = map JString (fst (launch js))"
  by (induction js rule: launch.induct) auto

lemma getUserEmails_Done:
  assumes "getUserEmails cm api ownerID js sent_at = (lookups, Done (emails, err))"
  shows "err = None \<and>
         (\<exists>ids. js = map JString ids \<and> lookups = map EmailLookup ids \<and>
                mset emails = filter_mset (\<lambda>e. e \<noteq> '''') (mset (resolved_emails cm api ownerID ids)))"
proof -
  obtain ids panicked where l: "launch js = (ids, panicked)"
    by (cases "launch js")
  from assms l have np: "\<not> panicked" and nq: "Panic \<notin> set (lookup_members cm api ownerID 0 ids)"
    and e: "err = None"
    by (auto simp: getUserEmails_def Let_def split: if_splits)
  from l np have js: "js = map JString ids"
    using launch_no_panic [of js] by simp
  from getUserEmails_strings [OF nq, of sent_at] assms js e show ?thesis
    by auto
qed

lemma GetChannelMembers_calls:
  "GetChannelMembers cm api userID channelID sent_at = (lookups, Done (emails, None)) \<Longrightarrow>
   \<exists>js. getUserEmails cm api userID js sent_at = (lookups, Done (emails, None))"
  unfolding GetChannelMembers_def
  by (simp split: sum.splits http_reply.splits option.splits if_splits) blast+

lemma GetChannelMembers_Done:
  assumes "GetChannelMembers cm api userID channelID sent_at = (lookups, Done (emails, None))"
  shows "\<exists>ids. lookups = map EmailLookup ids \<and>
              mset emails = filter_mset (\<lambda>e. e \<noteq> '''') (mset (resolved_emails cm api userID ids))"
proof -
  from GetChannelMembers_calls [OF assms] obtain js
    where "getUserEmails cm api userID js sent_at = (lookups, Done (emails, None))" ..
  from getUserEmails_Done [OF this] show ?thesis by blast
qed

lemma exclude_sender_mset:
  assumes a: "mset emails = filter_mset (\<lambda>e. e \<noteq> '''') M"
  shows "mset (exclude_sender emails senderEmail)
         = filter_mset (\<lambda>e. e \<noteq> senderEmail \<and> e \<noteq> '''') M"
proof -
  have "mset (exclude_sender emails senderEmail)
        = filter_mset (\<lambda>e. e \<noteq> senderEmail \<and> e \<noteq> '''') (mset emails)"
    by (simp add: exclude_sender_def)
  also have "\<dots> = filter_mset (\<lambda>e. e \<noteq> senderEmail \<and> e \<noteq> '''') M"
    unfolding a by (simp add: filter_filter_mset conj_commute cong: conj_cong)
  finally show ?thesis .
qed

text \<open>
  C7. The fan-in is to survive the failure of single lookups: failed lookups and empty
  addresses are left out and the remaining addresses returned. The code does so for a
  lookup that returns an error, but not for one whose reply lacks a boolean \<open>ok\<close>: the
  assertion \<^verbatim>\<open>result["ok"].(bool)\<close> of \<open>getUserEmail\<close> has no comma-ok form, unlike the
  assertions after it, and panics inside the goroutine. With the members \<open>U2\<close> and \<open>U3\<close>,
  where \<open>U2\<close> resolves to \<open>b@x.com\<close> and the reply for \<open>U3\<close> is \<^verbatim>\<open>{}\<close>, the lookup of \<open>U3\<close>
  panics and \<open>getUserEmails\<close> returns nothing, where the remaining address \<open>b@x.com\<close> was
  to be returned without an error.
\<close>

theorem getUserEmails_malformed_reply_panics:
  "users_info ex_api_malformed 2 ''U3'' = Unmarshalled []
   \<and> lookup_members ex_cm ex_api_malformed ''owner1'' 0 [''U2'', ''U3'']
       = [Done (''b@x.com'', None), Panic]
   \<and> resolved_emails ex_cm ex_api_malformed ''owner1'' [''U2'', ''U3''] = [''b@x.com'']
   \<and> getUserEmails ex_cm ex_api_malformed ''owner1'' (map JString [''U2'', ''U3'']) (\<lambda>i. i)
       = ([EmailLookup ''U2'', EmailLookup ''U3''], Panic)"
  by code_simp

section \<open>Properties of the member listing\<close>

lemma getUserEmails_no_error: "snd (getUserEmails cm api ownerID js sent_at) \<noteq> Done (emails, Some e)"
  by (simp add: getUserEmails_def Let_def split: prod.splits)

lemma getUserEmails_lookups:
  "fst (getUserEmails cm api ownerID (map JString ids) sent_at) = map EmailLookup ids"
  by (simp add: getUserEmails_def Let_def launch_strings)

text \<open>
  C5. The listing is capped at 50 members. When the owner's token is stored and the
  listing answers \<open>ok\<close> with the member identifiers \<open>ids\<close>, \<open>GetChannelMembers\<close> is the
  fan-in over the first 50 of them: it issues the lookups of \<open>take 50 ids\<close>, in the
  listing's order, and no others, so that a longer listing has exactly 50 lookups and a
  listing of at most 50 has all of its members looked up. The call never returns an
  error in either case.
\<close>

theorem GetChannelMembers_cap:
  assumes "cm userID = Some creds"
    and "conversations_members api channelID = Unmarshalled result"
    and "map_of result ''ok'' = Some (JBool True)"
    and "map_of result ''members'' = Some (JArray (map JString ids))"
  shows "GetChannelMembers cm api userID channelID sent_at
           = getUserEmails cm api userID (map JString (take 50 ids)) sent_at
       \<and> fst (GetChannelMembers cm api userID channelID sent_at) = map EmailLookup (take 50 ids)
       \<and> (\<forall>emails e. snd (GetChannelMembers cm api userID channelID sent_at) \<noteq> Done (emails, Some e))
       \<and> (50 < length ids \<longrightarrow>
            length (fst (GetChannelMembers cm api userID channelID sent_at)) = 50)
       \<and> (length ids \<le> 50 \<longrightarrow>
            fst (GetChannelMembers cm api userID channelID sent_at) = map EmailLookup ids)"
proof -
  have run: "GetChannelMembers cm api userID channelID sent_at
           = getUserEmails cm api userID (map JString (take 50 ids)) sent_at"
    using assms
    by (simp add: GetChannelMembers_def GetSlackToken_def GetCredentials_def maxUsers_def take_map)
  then show ?thesis
    by (simp add: getUserEmails_lookups getUserEmails_no_error)
qed

theorem GetChannelMembers_cap_witness:
  "ex_cm ''owner1'' = Some ex_creds
   \<and> conversations_members ex_api_large ''C1'' = Unmarshalled ex_large_listing
   \<and> map_of ex_large_listing ''ok'' = Some (JBool True)
   \<and> map_of ex_large_listing ''members'' = Some (JArray (map JString (map ex_member [0..<53])))
   \<and> 50 < length (map ex_member [0..<53])
   \<and> fst (GetChannelMembers ex_cm ex_api_large ''owner1'' ''C1'' (\<lambda>i. i))
       = map EmailLookup (map ex_member [0..<50])
   \<and> length (fst (GetChannelMembers ex_cm ex_api_large ''owner1'' ''C1'' (\<lambda>i. i))) = 50
   \<and> snd (GetChannelMembers ex_cm ex_api_large ''owner1'' ''C1'' (\<lambda>i. i)) = Done ([], None)"
proof -
  have token: "ex_cm ''owner1'' = Some ex_creds"
    by (simp add: ex_cm_def)
  have reply: "conversations_members ex_api_large ''C1'' = Unmarshalled ex_large_listing"
    by (simp add: ex_api_large_def)
  have ok: "map_of ex_large_listing ''ok'' = Some (JBool True)"
    by (simp add: ex_large_listing_def)
  have members: "map_of ex_large_listing ''members''
                 = Some (JArray (map JString (map ex_member [0..<53])))"
    by (simp add: ex_large_listing_def)
  have many: "50 < length (map ex_member [0..<53])"
    by simp
  have first: "take 50 (map ex_member [0..<53]) = map ex_member [0..<50]"
    by (simp add: take_map)
  have outs: "lookup_members ex_cm ex_api_large ''owner1'' i ids
              = replicate (length ids) (Done ('''', None))" for i ids
    by (induction ids arbitrary: i)
       (simp_all add: lookup_member_def getUserEmail_def GetSlackToken_def GetCredentials_def
          ex_cm_def ex_api_large_def profile_reply_def user_info_email_def)
  have none: "filter_mset (\<lambda>e. e \<noteq> []) (mset (resolved_emails ex_cm ex_api_large ''owner1'' ids)) = {#}"
    for ids
    unfolding resolved_emails_def outs by (induction ids) simp_all
  from getUserEmails_strings [of ex_cm ex_api_large "''owner1''" "map ex_member [0..<50]" "\<lambda>i. i"]
  have fanin: "snd (getUserEmails ex_cm ex_api_large ''owner1''
                      (map JString (map ex_member [0..<50])) (\<lambda>i. i)) = Done ([], None)"
    unfolding none by (auto simp: outs)
  note cap = GetChannelMembers_cap
         [of ex_cm "''owner1''" ex_creds ex_api_large "''C1''" ex_large_listing
             "map ex_member [0..<53]" "\<lambda>i. i", OF token reply ok members]
  from cap have run: "GetChannelMembers ex_cm ex_api_large ''owner1'' ''C1'' (\<lambda>i. i)
           = getUserEmails ex_cm ex_api_large ''owner1''
               (map JString (take 50 (map ex_member [0..<53]))) (\<lambda>i. i)"
    by (rule conjunct1)
  from cap have lookups: "fst (GetChannelMembers ex_cm ex_api_large ''owner1'' ''C1'' (\<lambda>i. i))
           = map EmailLookup (take 50 (map ex_member [0..<53]))"
    by blast
  from cap many
  have fifty: "length (fst (GetChannelMembers ex_cm ex_api_large ''owner1'' ''C1'' (\<lambda>i. i))) = 50"
    by blast
  have outcome: "snd (GetChannelMembers ex_cm ex_api_large ''owner1'' ''C1'' (\<lambda>i. i)) = Done ([], None)"
    unfolding run first by (rule fanin)
  from token reply ok members many lookups [unfolded first] fifty outcome
  show ?thesis by blast
qed

section \<open>Properties of the webhook handler\<close>

lemma getUserEmails_only_lookups:
  "\<exists>ids. fst (getUserEmails cm api ownerID js sent_at) = map EmailLookup ids"
  by (auto simp: getUserEmails_def Let_def split: prod.splits)

lemma GetChannelMembers_only_lookups:
  "\<exists>ids. fst (GetChannelMembers cm api userID channelID sent_at) = map EmailLookup ids"
  unfolding GetChannelMembers_def
  by (simp add: getUserEmails_only_lookups
      split: sum.splits http_reply.splits option.splits)

lemma exclude_sender_excludes: "senderEmail \<notin> set (exclude_sender emails senderEmail)"
  by (simp add: exclude_sender_def)

lemma process_message_dispatch:
  assumes run: "process_message cm api sent_at userID event = (resp, calls)"
    and disp: "Dispatch u to subject message \<in> set calls"
  shows "\<exists>senderEmail err ids recipients.
           getUserEmail cm (users_info api 0) userID (in_User (ev_Event event))
             = Done (senderEmail, err)
         \<and> calls = [EmailLookup (in_User (ev_Event event)), ListMembers (in_Channel (ev_Event event))]
                   @ map EmailLookup ids @ [Dispatch u to subject message]
         \<and> u = userID
         \<and> to = Join recipients '',''
         \<and> mset recipients
             = filter_mset (\<lambda>e. e \<noteq> senderEmail \<and> e \<noteq> '''')
                 (mset (resolved_emails cm api userID ids))
         \<and> senderEmail \<notin> set recipients"
proof (cases "getUserEmail cm (users_info api 0) userID (in_User (ev_Event event))")
  case Panic
  with run disp show ?thesis
    by (auto simp: process_message_def Let_def)
next
  case (Done sender)
  obtain senderEmail err where sender: "sender = (senderEmail, err)"
    by (cases sender)
  obtain lookups members
    where listing: "GetChannelMembers cm api userID (in_Channel (ev_Event event)) sent_at
                    = (lookups, members)"
    by (cases "GetChannelMembers cm api userID (in_Channel (ev_Event event)) sent_at")
  from GetChannelMembers_only_lookups [of cm api userID "in_Channel (ev_Event event)" sent_at]
       listing
  obtain ids0 where shape: "lookups = map EmailLookup ids0"
    by auto
  show ?thesis
  proof (cases members)
    case Panic
    with run disp Done sender listing shape show ?thesis
      by (auto simp: process_message_def Let_def)
  next
    case inner: (Done outcome)
    obtain emails failure where outcome: "outcome = (emails, failure)"
      by (cases outcome)
    show ?thesis
    proof (cases failure)
      case (Some e)
      with run disp Done sender listing shape inner outcome show ?thesis
        by (auto simp: process_message_def Let_def)
    next
      case None
      let ?recipients = "exclude_sender emails senderEmail"
      from listing inner outcome None
      have "GetChannelMembers cm api userID (in_Channel (ev_Event event)) sent_at
            = (lookups, Done (emails, None))"
        by simp
      from GetChannelMembers_Done [OF this] obtain ids
        where ids: "lookups = map EmailLookup ids"
          and ms: "mset emails = filter_mset (\<lambda>e. e \<noteq> '''') (mset (resolved_emails cm api userID ids))"
        by blast
      from run disp Done sender listing inner outcome None ids
      have calls: "calls = [EmailLookup (in_User (ev_Event event)),
                            ListMembers (in_Channel (ev_Event event))]
                     @ map EmailLookup ids @ [Dispatch u to subject message]"
        and u: "u = userID" and "to": "to = Join ?recipients '',''"
        by (auto simp: process_message_def Let_def split: if_splits)
      from Done sender calls u "to" exclude_sender_mset [OF ms, of senderEmail]
           exclude_sender_excludes [of senderEmail emails]
      show ?thesis by blast
    qed
  qed
qed

text \<open>
  C3. A payload that decodes as a challenge of type \<open>url_verification\<close> is answered with
  status 200 and a JSON body whose \<open>challenge\<close> field is the challenge string of the
  input, unchanged; the handler makes no call at all, whatever the payload decodes to
  as an event.
\<close>

theorem HandleWebhook_challenge:
  "HandleWebhook h cm api sent_at
     (Payload (Some \<lparr>ch_Type = ''url_verification'', ch_Challenge = c\<rparr>) event)
   = (Done \<lparr>status = 200, body = Json [(''challenge'', c)]\<rparr>, [])"
  by (simp add: HandleWebhook_def RespondJSON_def StatusOK_def)

text \<open>
  C4, as stated, fails: an \<open>event_callback\<close> whose inner kind is not \<open>message\<close> and whose
  team identifier is empty is answered with status 400, since the handler checks the
  team before it looks at the inner kind.
\<close>

theorem HandleWebhook_non_message_counterexample:
  "ev_Type (ex_event '''' ''reaction_added'') = ''event_callback''
   \<and> in_Type (ev_Event (ex_event '''' ''reaction_added'')) \<noteq> ''message''
   \<and> HandleWebhook ex_handler ex_cm ex_api (\<lambda>i. i)
         (Payload (Some \<lparr>ch_Type = ''event_callback'', ch_Challenge = ''''\<rparr>)
                  (Some (ex_event '''' ''reaction_added'')))
       = (Done \<lparr>status = 400, body = Json [(''error'', ''No team ID in event'')]\<rparr>, [])"
  by (simp add: HandleWebhook_def handle_event_def ex_event_def ex_inner_def
      RespondError_def RespondJSON_def StatusBadRequest_def)

text \<open>
  C4, amended. For every payload whose outer kind is \<open>event_callback\<close> and whose inner
  kind is not \<open>message\<close>, the handler resolves no recipient and dispatches nothing: the
  only call it may make is the team lookup. It answers 400 when the team identifier is
  empty, 404 when the team has no mapping, and 200 (\<open>Event received\<close>) otherwise.
\<close>

theorem HandleWebhook_non_message:
  assumes "ev_Type event = ''event_callback''"
    and "in_Type (ev_Event event) \<noteq> ''message''"
    and "map_option ch_Type challenge \<noteq> Some ''url_verification''"
  shows "HandleWebhook h cm api sent_at (Payload challenge (Some event))
         = (if ev_TeamID event = ''''
            then (Done \<lparr>status = 400, body = Json [(''error'', ''No team ID in event'')]\<rparr>, [])
            else if \<not> snd (GetUserIDForTeam h (ev_TeamID event))
            then (Done \<lparr>status = 404, body = Json [(''error'', ''Integration not found'')]\<rparr>,
                  [TeamLookup (ev_TeamID event)])
            else (Done \<lparr>status = 200, body = Text ''Event received''\<rparr>,
                  [TeamLookup (ev_TeamID event)]))
       \<and> set (snd (HandleWebhook h cm api sent_at (Payload challenge (Some event))))
           \<subseteq> {TeamLookup (ev_TeamID event)}"
proof -
  have skip: "(case challenge of None \<Rightarrow> None
               | Some c \<Rightarrow> if ch_Type c = ''url_verification'' then Some c else None) = None"
    using assms(3) by (cases challenge) auto
  have run: "HandleWebhook h cm api sent_at (Payload challenge (Some event))
             = handle_event h cm api sent_at event"
    by (simp add: HandleWebhook_def skip)
  show ?thesis
    unfolding run using assms(1,2)
    by (simp add: handle_event_def Let_def RespondError_def RespondJSON_def StatusOK_def
        StatusBadRequest_def StatusNotFound_def split: prod.splits)
qed

theorem HandleWebhook_non_message_witness:
  "ev_Type (ex_event ''T1'' ''reaction_added'') = ''event_callback''
   \<and> in_Type (ev_Event (ex_event ''T1'' ''reaction_added'')) \<noteq> ''message''
   \<and> map_option ch_Type (Some \<lparr>ch_Type = ''event_callback'', ch_Challenge = ''''\<rparr>)
       \<noteq> Some ''url_verification''
   \<and> HandleWebhook ex_handler ex_cm ex_api (\<lambda>i. i)
         (Payload (Some \<lparr>ch_Type = ''event_callback'', ch_Challenge = ''''\<rparr>)
                  (Some (ex_event ''T1'' ''reaction_added'')))
       = (Done \<lparr>status = 200, body = Text ''Event received''\<rparr>, [TeamLookup ''T1''])"
proof -
  have outer: "ev_Type (ex_event ''T1'' ''reaction_added'') = ''event_callback''"
    by (simp add: ex_event_def)
  have inner: "in_Type (ev_Event (ex_event ''T1'' ''reaction_added'')) \<noteq> ''message''"
    by (simp add: ex_event_def ex_inner_def)
  have nochallenge: "map_option ch_Type (Some \<lparr>ch_Type = ''event_callback'', ch_Challenge = ''''\<rparr>)
       \<noteq> Some ''url_verification''"
    by simp
  have team: "ev_TeamID (ex_event ''T1'' ''reaction_added'') = ''T1''"
    by (simp add: ex_event_def)
  have mapped: "snd (GetUserIDForTeam ex_handler ''T1'')"
    by (simp add: ex_handler_def)
  from HandleWebhook_non_message [OF outer inner nochallenge, of ex_handler ex_cm ex_api "\<lambda>i. i"]
       outer inner nochallenge mapped
  show ?thesis unfolding team by simp
qed

lemma ex_run:
  "HandleWebhook ex_handler ex_cm ex_api (\<lambda>i. 3 - i)
     (Payload (Some \<lparr>ch_Type = ''event_callback'', ch_Challenge = ''''\<rparr>)
              (Some (ex_event ''T1'' ''message'')))
   = (Done \<lparr>status = 200, body = Text ''Message received and processing''\<rparr>,
      [TeamLookup ''T1'', EmailLookup ''U1'', ListMembers ''C1'',
       EmailLookup ''U1'', EmailLookup ''U2'', EmailLookup ''U3'',
       Dispatch ''owner1'' ''b@x.com'' notification_subject (notification_message ''U1'' ''hi'')])"
  by code_simp

text \<open>
  C1, as stated, fails: no duplicate is removed. When two members resolve to one
  address, here \<open>U2\<close> and \<open>U3\<close> to \<open>b@x.com\<close>, the list passed to the dispatch names
  that address twice, where the list of the specification names it once.
\<close>

theorem HandleWebhook_recipients_counterexample:
  "HandleWebhook ex_handler ex_cm ex_api_shared (\<lambda>i. 3 - i)
     (Payload (Some \<lparr>ch_Type = ''event_callback'', ch_Challenge = ''''\<rparr>)
              (Some (ex_event ''T1'' ''message'')))
   = (Done \<lparr>status = 200, body = Text ''Message received and processing''\<rparr>,
      [TeamLookup ''T1'', EmailLookup ''U1'', ListMembers ''C1'',
       EmailLookup ''U1'', EmailLookup ''U2'', EmailLookup ''U3'',
       Dispatch ''owner1'' ''b@x.com,b@x.com'' notification_subject
         (notification_message ''U1'' ''hi'')])
   \<and> getUserEmail ex_cm (users_info ex_api_shared 0) ''owner1'' ''U1'' = Done (''a@x.com'', None)
   \<and> resolved_emails ex_cm ex_api_shared ''owner1'' [''U1'', ''U2'', ''U3'']
       = [''a@x.com'', ''b@x.com'', ''b@x.com'']
   \<and> Join (spec_recipients (resolved_emails ex_cm ex_api_shared ''owner1'' [''U1'', ''U2'', ''U3''])
             ''a@x.com'') '','' = ''b@x.com''
   \<and> ''b@x.com,b@x.com'' \<noteq> ''b@x.com''"
  by code_simp

text \<open>
  C1, amended. Whenever the handler dispatches an email for a message event, the
  recipient string is the comma-joined list \<open>recipients\<close> that holds exactly the non-empty
  addresses resolved by the lookups of the members looked up (those recorded among the
  calls), other than the address the sender's lookup returned, each as often as members
  resolved to it. The list never contains the sender's resolved address.
\<close>

theorem HandleWebhook_recipients:
  assumes run: "HandleWebhook h cm api sent_at (Payload challenge (Some event)) = (resp, calls)"
    and disp: "Dispatch userID to subject message \<in> set calls"
  shows "\<exists>senderEmail err ids recipients.
           getUserEmail cm (users_info api 0) userID (in_User (ev_Event event))
             = Done (senderEmail, err)
         \<and> userID = fst (GetUserIDForTeam h (ev_TeamID event))
         \<and> calls = [TeamLookup (ev_TeamID event), EmailLookup (in_User (ev_Event event)),
                     ListMembers (in_Channel (ev_Event event))]
                   @ map EmailLookup ids @ [Dispatch userID to subject message]
         \<and> to = Join recipients '',''
         \<and> mset recipients
             = filter_mset (\<lambda>e. e \<noteq> senderEmail \<and> e \<noteq> '''')
                 (mset (resolved_emails cm api userID ids))
         \<and> senderEmail \<notin> set recipients"
proof -
  obtain owner exists where team: "GetUserIDForTeam h (ev_TeamID event) = (owner, exists)"
    by (cases "GetUserIDForTeam h (ev_TeamID event)")
  obtain resp' calls' where pm: "process_message cm api sent_at owner event = (resp', calls')"
    by (cases "process_message cm api sent_at owner event")
  from run disp team pm have calls: "calls = TeamLookup (ev_TeamID event) # calls'"
    and d: "Dispatch userID to subject message \<in> set calls'"
    by (auto simp: HandleWebhook_def handle_event_def Let_def
             split: option.splits if_splits)
  from process_message_dispatch [OF pm d] calls team show ?thesis
    by auto
qed

theorem HandleWebhook_recipients_witness:
  "HandleWebhook ex_handler ex_cm ex_api (\<lambda>i. 3 - i)
     (Payload (Some \<lparr>ch_Type = ''event_callback'', ch_Challenge = ''''\<rparr>)
              (Some (ex_event ''T1'' ''message'')))
   = (Done \<lparr>status = 200, body = Text ''Message received and processing''\<rparr>,
      [TeamLookup ''T1'', EmailLookup ''U1'', ListMembers ''C1'',
       EmailLookup ''U1'', EmailLookup ''U2'', EmailLookup ''U3'',
       Dispatch ''owner1'' ''b@x.com'' notification_subject (notification_message ''U1'' ''hi'')])
   \<and> Dispatch ''owner1'' ''b@x.com'' notification_subject (notification_message ''U1'' ''hi'')
       \<in> set [TeamLookup ''T1'', EmailLookup ''U1'', ListMembers ''C1'',
               EmailLookup ''U1'', EmailLookup ''U2'', EmailLookup ''U3'',
               Dispatch ''owner1'' ''b@x.com'' notification_subject
                 (notification_message ''U1'' ''hi'')]
   \<and> (\<exists>senderEmail err ids recipients.
           getUserEmail ex_cm (users_info ex_api 0) ''owner1''
               (in_User (ev_Event (ex_event ''T1'' ''message'')))
             = Done (senderEmail, err)
         \<and> ''owner1'' = fst (GetUserIDForTeam ex_handler (ev_TeamID (ex_event ''T1'' ''message'')))
         \<and> ''b@x.com'' = Join recipients '',''
         \<and> mset recipients
             = filter_mset (\<lambda>e. e \<noteq> senderEmail \<and> e \<noteq> '''')
                 (mset (resolved_emails ex_cm ex_api ''owner1'' ids))
         \<and> senderEmail \<notin> set recipients)"
proof -
  have dispatched:
    "Dispatch ''owner1'' ''b@x.com'' notification_subject (notification_message ''U1'' ''hi'')
       \<in> set [TeamLookup ''T1'', EmailLookup ''U1'', ListMembers ''C1'',
               EmailLookup ''U1'', EmailLookup ''U2'', EmailLookup ''U3'',
               Dispatch ''owner1'' ''b@x.com'' notification_subject
                 (notification_message ''U1'' ''hi'')]"
    by simp
  from HandleWebhook_recipients [OF ex_run dispatched] ex_run dispatched
  show ?thesis by blast
qed

section \<open>Properties of the retry loops\<close>

declare service_loop.simps [simp del] send_loop.simps [simp del]

lemma service_loop_4: "service_loop get 4 b srv err calls = (srv, err, calls)"
  by (simp add: service_loop.simps [of get 4])

lemma service_loop_3:
  "service_loop get 3 b srv err calls
   = (fst (get 3), snd (get 3), calls @ [CallGetGmailService])"
  by (simp add: service_loop.simps [of get 3] service_loop_4 Let_def split: prod.splits)

lemma service_loop_2:
  "service_loop get 2 b srv err calls
   = (if snd (get 2) = None then (fst (get 2), None, calls @ [CallGetGmailService])
      else service_loop get 3 (b * 2) (fst (get 2)) (snd (get 2))
             (calls @ [CallGetGmailService, Sleep b]))"
  by (simp add: service_loop.simps [of get 2] Let_def split: prod.splits)

lemma service_loop_1:
  "service_loop get 1 b srv err calls
   = (if snd (get 1) = None then (fst (get 1), None, calls @ [CallGetGmailService])
      else service_loop get 2 (b * 2) (fst (get 1)) (snd (get 1))
             (calls @ [CallGetGmailService, Sleep b]))"
  by (subst service_loop.simps) (simp add: Let_def numeral_2_eq_2 split: prod.splits)

lemma service_loop_unfold:
  "service_loop get 1 b None None [] =
     (if snd (get 1) = None then (fst (get 1), None, [CallGetGmailService])
      else if snd (get 2) = None
      then (fst (get 2), None, [CallGetGmailService, Sleep b, CallGetGmailService])
      else (fst (get 3), snd (get 3),
            [CallGetGmailService, Sleep b, CallGetGmailService, Sleep (b * 2),
             CallGetGmailService]))"
  by (simp only: service_loop_1 service_loop_2 service_loop_3) simp

lemma send_loop_4: "send_loop submit raw 4 b response err calls = (response, err, calls)"
  by (simp add: send_loop.simps [of submit raw 4])

lemma send_loop_3:
  "send_loop submit raw 3 b response err calls
   = (fst (submit 3), snd (submit 3), calls @ [CallSend raw])"
  by (simp add: send_loop.simps [of submit raw 3] send_loop_4 Let_def split: prod.splits)

lemma send_loop_2:
  "send_loop submit raw 2 b response err calls
   = (if snd (submit 2) = None then (fst (submit 2), None, calls @ [CallSend raw])
      else send_loop submit raw 3 (b * 2) (fst (submit 2)) (snd (submit 2))
             (calls @ [CallSend raw, Sleep b]))"
  by (simp add: send_loop.simps [of submit raw 2] Let_def split: prod.splits)

lemma send_loop_1:
  "send_loop submit raw 1 b response err calls
   = (if snd (submit 1) = None then (fst (submit 1), None, calls @ [CallSend raw])
      else send_loop submit raw 2 (b * 2) (fst (submit 1)) (snd (submit 1))
             (calls @ [CallSend raw, Sleep b]))"
  by (subst send_loop.simps) (simp add: Let_def numeral_2_eq_2 split: prod.splits)

lemma send_loop_unfold:
  "send_loop submit raw 1 b None None [] =
     (if snd (submit 1) = None then (fst (submit 1), None, [CallSend raw])
      else if snd (submit 2) = None
      then (fst (submit 2), None, [CallSend raw, Sleep b, CallSend raw])
      else (fst (submit 3), snd (submit 3),
            [CallSend raw, Sleep b, CallSend raw, Sleep (b * 2), CallSend raw]))"
  by (simp only: send_loop_1 send_loop_2 send_loop_3) simp

lemma service_loop_shapes:
  "snd (snd (service_loop get 1 b None None []))
   \<in> {[CallGetGmailService],
       [CallGetGmailService, Sleep b, CallGetGmailService],
       [CallGetGmailService, Sleep b, CallGetGmailService, Sleep (b * 2), CallGetGmailService]}"
  unfolding service_loop_unfold by simp

lemma send_loop_shapes:
  "snd (snd (send_loop submit raw 1 b None None []))
   \<in> {[CallSend raw],
       [CallSend raw, Sleep b, CallSend raw],
       [CallSend raw, Sleep b, CallSend raw, Sleep (b * 2), CallSend raw]}"
  unfolding send_loop_unfold by simp

lemma service_loop_exhausted:
  assumes "snd (get 1) \<noteq> None" and "snd (get 2) \<noteq> None" and "snd (get 3) \<noteq> None"
  shows "service_loop get 1 b None None []
         = (fst (get 3), snd (get 3),
            [CallGetGmailService, Sleep b, CallGetGmailService, Sleep (b * 2),
             CallGetGmailService])"
  unfolding service_loop_unfold using assms by simp

lemma send_loop_exhausted:
  assumes "snd (submit 1) \<noteq> None" and "snd (submit 2) \<noteq> None" and "snd (submit 3) \<noteq> None"
  shows "send_loop submit raw 1 b None None []
         = (fst (submit 3), snd (submit 3),
            [CallSend raw, Sleep b, CallSend raw, Sleep (b * 2), CallSend raw])"
  unfolding send_loop_unfold using assms by simp

lemma service_loop_acquired:
  assumes "\<And>k. snd (get k) = None \<Longrightarrow> fst (get k) \<noteq> None"
    and "service_loop get 1 b None None [] = (srv, None, calls)"
  shows "srv \<noteq> None"
  using assms(2) assms(1) [of 1] assms(1) [of 2] assms(1) [of 3]
  unfolding service_loop_unfold by (auto split: if_splits)

lemma GetGmailService_srv:
  "snd (GetGmailService cm created userID) = None \<Longrightarrow> fst (GetGmailService cm created userID) \<noteq> None"
  by (simp add: GetGmailService_def split: sum.splits option.splits)

lemma SendEmail_service_failed:
  assumes "service_loop (\<lambda>attempt. GetGmailService cm (new_service w attempt) userID)
             1 (1 * second) None None [] = (srv, Some e, calls)"
  shows "SendEmail cm w userID to subject messageText
         = (Done (Some (ServiceRetriesFailed e)), calls)"
  unfolding SendEmail_def assms by simp

lemma SendEmail_profile_failed:
  assumes "service_loop (\<lambda>attempt. GetGmailService cm (new_service w attempt) userID)
             1 (1 * second) None None [] = (Some service, None, calls)"
    and "get_profile w = Inl e"
  shows "SendEmail cm w userID to subject messageText
         = (Done (Some (ProfileFailed e)), calls @ [CallGetProfile])"
  unfolding SendEmail_def assms by simp

lemma SendEmail_submitting:
  assumes "service_loop (\<lambda>attempt. GetGmailService cm (new_service w attempt) userID)
             1 (1 * second) None None [] = (Some service, None, calls)"
    and "get_profile w = Inr fromEmail"
    and "send_loop (\<lambda>attempt. as_pair (send w attempt (raw_message w fromEmail to subject messageText)))
           (raw_message w fromEmail to subject messageText) 1 (1 * second) None None []
         = (response, err2, calls2)"
  shows "SendEmail cm w userID to subject messageText
         = (case err2 of
              Some e \<Rightarrow> Done (Some (SendRetriesFailed e))
            | None \<Rightarrow> (case response of None \<Rightarrow> Panic | Some sent_message \<Rightarrow> Done None),
            calls @ [CallGetProfile] @ calls2)"
  using assms unfolding SendEmail_def
  by (simp add: Let_def split: option.splits)

lemma service_loop_failed:
  assumes "service_loop get 1 b None None [] = (srv, Some e, calls)"
  shows "snd (get 1) \<noteq> None \<and> snd (get 2) \<noteq> None \<and> snd (get 3) = Some e"
  using assms unfolding service_loop_unfold by (auto split: if_splits)

lemma ex_gmail_run: "SendEmail ex_cm ex_gmail ''owner1'' ''b@x.com'' ''s'' ''m''
       = (Done (Some (SendRetriesFailed ''quota exceeded'')),
          [CallGetGmailService, Sleep second, CallGetGmailService, Sleep (2 * second),
           CallGetGmailService, CallGetProfile,
           CallSend ''QUJD-_'', Sleep second, CallSend ''QUJD-_'', Sleep (2 * second),
           CallSend ''QUJD-_''])"
  by code_simp

lemma ex_gmail_down_run: "SendEmail ex_cm ex_gmail_down ''owner1'' ''b@x.com'' ''s'' ''m''
       = (Done (Some (ServiceRetriesFailed ''unable to create Gmail service: connection refused'')),
          [CallGetGmailService, Sleep second, CallGetGmailService, Sleep (2 * second),
           CallGetGmailService])"
  by code_simp

text \<open>
  C6. In \<open>SendEmail\<close> the acquisition of the mail-service client and the submission of
  the message are each attempted at most three times, each loop with its own budget.
  The calls of a run are those of the acquisition followed by those of the submission:
  the acquisition is one, two or three calls of \<open>GetGmailService\<close> with a sleep of one
  second before the second and of two seconds before the third; the submission, when
  it is reached, follows the profile request and is one, two or three calls of \<open>Send\<close>
  with the same two sleeps. When all three acquisitions fail, nothing is submitted and
  the error is returned; when the client was acquired, the profile read and all three
  submissions fail, the error is returned after the third.
\<close>

theorem SendEmail_retries:
  fixes cm w userID to subject messageText
  defines "get \<equiv> \<lambda>attempt. GetGmailService cm (new_service w attempt) userID"
  defines "result \<equiv> SendEmail cm w userID to subject messageText"
  shows "\<exists>acquired submitted raw.
     snd result = acquired @ submitted
   \<and> acquired \<in> {[CallGetGmailService],
                   [CallGetGmailService, Sleep second, CallGetGmailService],
                   [CallGetGmailService, Sleep second, CallGetGmailService,
                    Sleep (2 * second), CallGetGmailService]}
   \<and> submitted \<in> {[], [CallGetProfile],
                    [CallGetProfile, CallSend raw],
                    [CallGetProfile, CallSend raw, Sleep second, CallSend raw],
                    [CallGetProfile, CallSend raw, Sleep second, CallSend raw,
                     Sleep (2 * second), CallSend raw]}
   \<and> ((\<forall>k \<in> {1, 2, 3}. snd (get k) \<noteq> None) \<longrightarrow>
        acquired = [CallGetGmailService, Sleep second, CallGetGmailService,
                    Sleep (2 * second), CallGetGmailService]
        \<and> submitted = [] \<and> (\<exists>e. fst result = Done (Some (ServiceRetriesFailed e))))
   \<and> (\<forall>fromEmail.
         (\<exists>k \<in> {1, 2, 3}. snd (get k) = None) \<and> get_profile w = Inr fromEmail
         \<and> (\<forall>k \<in> {1, 2, 3}. \<exists>e. send w k (raw_message w fromEmail to subject messageText) = Inl e)
         \<longrightarrow> raw = raw_message w fromEmail to subject messageText
           \<and> submitted = [CallGetProfile, CallSend raw, Sleep second, CallSend raw,
                          Sleep (2 * second), CallSend raw]
           \<and> (\<exists>e. fst result = Done (Some (SendRetriesFailed e))))"
proof -
  obtain srv err calls
    where L1: "service_loop get 1 (1 * second) None None [] = (srv, err, calls)"
    by (cases "service_loop get 1 (1 * second) None None []")
  from service_loop_shapes [of get "1 * second"]
  have shape1: "calls \<in> {[CallGetGmailService],
                   [CallGetGmailService, Sleep second, CallGetGmailService],
                   [CallGetGmailService, Sleep second, CallGetGmailService,
                    Sleep (2 * second), CallGetGmailService]}"
    unfolding L1 by (simp add: mult.commute)
  have exhausted1: "err \<noteq> None \<and> calls = [CallGetGmailService, Sleep second, CallGetGmailService,
                    Sleep (2 * second), CallGetGmailService]"
    if "\<forall>k \<in> {1, 2, 3}. snd (get k) \<noteq> None"
    using service_loop_exhausted [of get "1 * second"] that L1
    by (simp add: mult.commute)
  show ?thesis
  proof (cases err)
    case (Some e)
    from L1 Some have run: "result = (Done (Some (ServiceRetriesFailed e)), calls)"
      unfolding result_def get_def by (rule_tac SendEmail_service_failed) simp
    from service_loop_failed [of get "1 * second" srv e calls] L1 Some
    have allfail: "\<not> (\<exists>k \<in> {1, 2, 3}. snd (get k) = None)"
      by auto
    show ?thesis
      apply (rule exI [of _ calls], rule exI [of _ "[]"], rule exI [of _ "[]"])
      using run shape1 exhausted1 allfail by auto
  next
    case None
    have acquired_one: "\<exists>k \<in> {1, 2, 3}. snd (get k) = None"
    proof (rule ccontr)
      assume "\<not> (\<exists>k \<in> {1, 2, 3}. snd (get k) = None)"
      then have "\<forall>k \<in> {1, 2, 3}. snd (get k) \<noteq> None"
        by simp
      from exhausted1 [OF this] None show False
        by simp
    qed
    have not_exhausted: "\<not> (\<forall>k \<in> {1, 2, 3}. snd (get k) \<noteq> None)"
      using acquired_one by blast
    have "srv \<noteq> None"
    proof (rule service_loop_acquired)
      show "snd (get k) = None \<Longrightarrow> fst (get k) \<noteq> None" for k
        unfolding get_def by (rule GetGmailService_srv)
      show "service_loop get 1 (1 * second) None None [] = (srv, None, calls)"
        using L1 None by simp
    qed
    then obtain service where srv: "srv = Some service"
      by auto
    have L1': "service_loop (\<lambda>attempt. GetGmailService cm (new_service w attempt) userID)
                 1 (1 * second) None None [] = (Some service, None, calls)"
      using L1 None srv unfolding get_def by simp
    show ?thesis
    proof (cases "get_profile w")
      case (Inl e)
      from SendEmail_profile_failed [OF L1' Inl]
      have run: "result = (Done (Some (ProfileFailed e)), calls @ [CallGetProfile])"
        unfolding result_def .
      show ?thesis
        apply (rule exI [of _ calls], rule exI [of _ "[CallGetProfile]"], rule exI [of _ "[]"])
        using run shape1 not_exhausted Inl by (intro conjI) (simp_all del: ball_simps)
    next
      case (Inr fromEmail)
      let ?raw = "raw_message w fromEmail to subject messageText"
      let ?submit = "\<lambda>attempt. as_pair (send w attempt ?raw)"
      obtain response err2 calls2
        where L2: "send_loop ?submit ?raw 1 (1 * second) None None [] = (response, err2, calls2)"
        by (cases "send_loop ?submit ?raw 1 (1 * second) None None []")
      from send_loop_shapes [of ?submit ?raw "1 * second"]
      have shape2: "calls2 \<in> {[CallSend ?raw],
                       [CallSend ?raw, Sleep second, CallSend ?raw],
                       [CallSend ?raw, Sleep second, CallSend ?raw,
                        Sleep (2 * second), CallSend ?raw]}"
        unfolding L2 by (simp add: mult.commute)
      have exhausted2: "(\<exists>e. err2 = Some e)
                        \<and> calls2 = [CallSend ?raw, Sleep second, CallSend ?raw,
                                    Sleep (2 * second), CallSend ?raw]"
        if "\<forall>k \<in> {1, 2, 3}. \<exists>e. send w k ?raw = Inl e"
      proof -
        from that have "snd (?submit 1) \<noteq> None" "snd (?submit 2) \<noteq> None" "snd (?submit 3) \<noteq> None"
          by (auto simp: as_pair_def)
        from send_loop_exhausted [OF this, of ?raw "1 * second"] L2 this(3) show ?thesis
          by (auto simp: mult.commute)
      qed
      from SendEmail_submitting [OF L1' Inr L2]
      have run: "result
         = (case err2 of
              Some e \<Rightarrow> Done (Some (SendRetriesFailed e))
            | None \<Rightarrow> (case response of None \<Rightarrow> Panic | Some sent_message \<Rightarrow> Done None),
            calls @ [CallGetProfile] @ calls2)"
        unfolding result_def .
      show ?thesis
        apply (rule exI [of _ calls], rule exI [of _ "CallGetProfile # calls2"],
               rule exI [of _ ?raw])
        using run shape1 shape2 not_exhausted exhausted2 Inr
        by (intro conjI) (auto simp del: ball_simps split: option.splits)
    qed
  qed
qed

theorem SendEmail_retries_witness:
  "snd (GetGmailService ex_cm (new_service ex_gmail_down 1) ''owner1'') \<noteq> None
   \<and> snd (GetGmailService ex_cm (new_service ex_gmail_down 2) ''owner1'') \<noteq> None
   \<and> snd (GetGmailService ex_cm (new_service ex_gmail_down 3) ''owner1'') \<noteq> None
   \<and> SendEmail ex_cm ex_gmail_down ''owner1'' ''b@x.com'' ''s'' ''m''
       = (Done (Some (ServiceRetriesFailed ''unable to create Gmail service: connection refused'')),
          [CallGetGmailService, Sleep second, CallGetGmailService, Sleep (2 * second),
           CallGetGmailService])
   \<and> snd (GetGmailService ex_cm (new_service ex_gmail 3) ''owner1'') = None
   \<and> get_profile ex_gmail = Inr ''me@x.com''
   \<and> raw_message ex_gmail ''me@x.com'' ''b@x.com'' ''s'' ''m'' = ''QUJD-_''
   \<and> send ex_gmail 1 ''QUJD-_'' = Inl ''quota exceeded''
   \<and> send ex_gmail 2 ''QUJD-_'' = Inl ''quota exceeded''
   \<and> send ex_gmail 3 ''QUJD-_'' = Inl ''quota exceeded''
   \<and> (\<exists>acquired.
         snd (SendEmail ex_cm ex_gmail ''owner1'' ''b@x.com'' ''s'' ''m'')
           = acquired @ [CallGetProfile, CallSend ''QUJD-_'', Sleep second, CallSend ''QUJD-_'',
                         Sleep (2 * second), CallSend ''QUJD-_''])
   \<and> fst (SendEmail ex_cm ex_gmail ''owner1'' ''b@x.com'' ''s'' ''m'')
       = Done (Some (SendRetriesFailed ''quota exceeded''))"
proof -
  have down: "\<forall>k \<in> {1, 2, 3}. snd (GetGmailService ex_cm (new_service ex_gmail_down k) ''owner1'') \<noteq> None"
    by (simp add: GetGmailService_def GetCredentials_def ex_cm_def ex_gmail_down_def ex_gmail_def)
  from SendEmail_retries [of ex_cm ex_gmail_down "''owner1''" "''b@x.com''" "''s''" "''m''"] down
  obtain e where
    calls_down: "snd (SendEmail ex_cm ex_gmail_down ''owner1'' ''b@x.com'' ''s'' ''m'')
       = [CallGetGmailService, Sleep second, CallGetGmailService, Sleep (2 * second),
          CallGetGmailService]"
    and error_down: "fst (SendEmail ex_cm ex_gmail_down ''owner1'' ''b@x.com'' ''s'' ''m'')
       = Done (Some (ServiceRetriesFailed e))"
    by auto
  from error_down have "e = ''unable to create Gmail service: connection refused''"
    unfolding ex_gmail_down_run by simp
  with calls_down error_down
  have run_down: "SendEmail ex_cm ex_gmail_down ''owner1'' ''b@x.com'' ''s'' ''m''
       = (Done (Some (ServiceRetriesFailed ''unable to create Gmail service: connection refused'')),
          [CallGetGmailService, Sleep second, CallGetGmailService, Sleep (2 * second),
           CallGetGmailService])"
    by (simp add: prod_eq_iff)
  have third: "snd (GetGmailService ex_cm (new_service ex_gmail 3) ''owner1'') = None"
    by (simp add: GetGmailService_def GetCredentials_def ex_cm_def ex_gmail_def)
  then have some: "\<exists>k \<in> {1, 2, 3}. snd (GetGmailService ex_cm (new_service ex_gmail k) ''owner1'') = None"
    by blast
  have profile: "get_profile ex_gmail = Inr ''me@x.com''"
    by (simp add: ex_gmail_def)
  have raw: "raw_message ex_gmail ''me@x.com'' ''b@x.com'' ''s'' ''m'' = ''QUJD-_''"
    by (simp add: raw_message_def ex_gmail_def ReplaceAll_def TrimRight_def)
  have refused: "send ex_gmail k r = Inl ''quota exceeded''" for k r
    by (simp add: ex_gmail_def)
  then have all: "\<forall>k \<in> {1, 2, 3}. \<exists>e.
      send ex_gmail k (raw_message ex_gmail ''me@x.com'' ''b@x.com'' ''s'' ''m'') = Inl e"
    by simp
  from SendEmail_retries [of ex_cm ex_gmail "''owner1''" "''b@x.com''" "''s''" "''m''"]
  obtain acquired submitted r where
    split: "snd (SendEmail ex_cm ex_gmail ''owner1'' ''b@x.com'' ''s'' ''m'') = acquired @ submitted"
    and last: "\<forall>fromEmail.
       (\<exists>k \<in> {1, 2, 3}. snd (GetGmailService ex_cm (new_service ex_gmail k) ''owner1'') = None)
       \<and> get_profile ex_gmail = Inr fromEmail
       \<and> (\<forall>k \<in> {1, 2, 3}. \<exists>e.
             send ex_gmail k (raw_message ex_gmail fromEmail ''b@x.com'' ''s'' ''m'') = Inl e)
       \<longrightarrow> r = raw_message ex_gmail fromEmail ''b@x.com'' ''s'' ''m''
         \<and> submitted = [CallGetProfile, CallSend r, Sleep second, CallSend r,
                        Sleep (2 * second), CallSend r]
         \<and> (\<exists>e. fst (SendEmail ex_cm ex_gmail ''owner1'' ''b@x.com'' ''s'' ''m'')
                  = Done (Some (SendRetriesFailed e)))"
    by blast
  from last some profile all
  have r: "r = raw_message ex_gmail ''me@x.com'' ''b@x.com'' ''s'' ''m''"
    and submitted: "submitted = [CallGetProfile, CallSend r, Sleep second, CallSend r,
                        Sleep (2 * second), CallSend r]"
    and failed: "\<exists>e. fst (SendEmail ex_cm ex_gmail ''owner1'' ''b@x.com'' ''s'' ''m'')
                  = Done (Some (SendRetriesFailed e))"
    by blast+
  from failed have error: "fst (SendEmail ex_cm ex_gmail ''owner1'' ''b@x.com'' ''s'' ''m'')
       = Done (Some (SendRetriesFailed ''quota exceeded''))"
    unfolding ex_gmail_run by simp
  from split submitted r raw
  have calls: "\<exists>acquired.
         snd (SendEmail ex_cm ex_gmail ''owner1'' ''b@x.com'' ''s'' ''m'')
           = acquired @ [CallGetProfile, CallSend ''QUJD-_'', Sleep second, CallSend ''QUJD-_'',
                         Sleep (2 * second), CallSend ''QUJD-_'']"
    by auto
  from down have d: "snd (GetGmailService ex_cm (new_service ex_gmail_down 1) ''owner1'') \<noteq> None"
     "snd (GetGmailService ex_cm (new_service ex_gmail_down 2) ''owner1'') \<noteq> None"
     "snd (GetGmailService ex_cm (new_service ex_gmail_down 3) ''owner1'') \<noteq> None"
    by simp_all
  from d run_down third profile raw refused [of 1] refused [of 2] refused [of 3] calls error
  show ?thesis
    by (intro conjI)
qed

section \<open>Properties of the admission gate\<close>

lemma filter_update_length:
  "i < length xs \<Longrightarrow>
   length (filter P (xs[i := v])) + (if P (xs ! i) then 1 else 0)
   = length (filter P xs) + (if P v then 1 else 0)"
proof (induction xs arbitrary: i)
  case Nil
  then show ?case by simp
next
  case (Cons x xs)
  then show ?case by (cases i) auto
qed

lemma step_holders:
  assumes "step m s = Some s'" and "holders s = semaphore s"
  shows "holders s' = semaphore s'"
proof (cases m)
  case (Acquire i)
  with assms filter_update_length [of i "pcs s" holding InFlight] show ?thesis
    by (auto simp: holders_def at_def split: if_splits)
next
  case (Return i)
  with assms filter_update_length [of i "pcs s" holding Returned] show ?thesis
    by (auto simp: holders_def at_def split: if_splits)
next
  case (Deliver i)
  with assms filter_update_length [of i "pcs s" holding Delivered] show ?thesis
    by (auto simp: holders_def at_def split: if_splits)
next
  case (Release i)
  with assms filter_update_length [of i "pcs s" holding Finished] show ?thesis
    by (auto simp: holders_def at_def split: if_splits)
next
  case Collect
  with assms show ?thesis
    by (auto simp: holders_def split: list.splits)
qed

lemma step_semaphore:
  assumes "step m s = Some s'" and "semaphore s \<le> capacity"
  shows "semaphore s' \<le> capacity"
  using assms by (cases m) (auto split: if_splits list.splits)

lemma run_invariant:
  "run ms s = Some s' \<Longrightarrow> holders s = semaphore s \<Longrightarrow> semaphore s \<le> capacity
   \<Longrightarrow> holders s' = semaphore s' \<and> semaphore s' \<le> capacity"
proof (induction ms arbitrary: s)
  case Nil
  then show ?case by simp
next
  case (Cons m ms)
  from Cons.prems(1) obtain t where t: "step m s = Some t" and rest: "run ms t = Some s'"
    by (auto split: option.splits)
  from step_holders [OF t Cons.prems(2)] step_semaphore [OF t Cons.prems(3)] Cons.IH [OF rest]
  show ?case by simp
qed

lemma in_flight_le_holders: "in_flight s \<le> holders s"
proof -
  have "length (filter (\<lambda>p. p = InFlight) xs) \<le> length (filter holding xs)" for xs
    by (induction xs) auto
  then show ?thesis by (simp add: in_flight_def holders_def)
qed

lemma start_invariant: "holders (start n) = semaphore (start n) \<and> semaphore (start n) \<le> capacity"
  by (simp add: holders_def start_def)

lemma run_take: "run ms s = Some s' \<Longrightarrow> \<exists>t. run (take k ms) s = Some t"
proof (induction ms arbitrary: s k)
  case Nil
  then show ?case by simp
next
  case (Cons m ms)
  then show ?case by (cases k) (auto split: option.splits)
qed

text \<open>
  C9. At every instant of the fan-out at most 5 lookups are in flight, for every number
  of members: in the state any run of the scheduler reaches from the start, and in the
  state after each of its prefixes, at most 5 goroutines are inside \<open>getUserEmail\<close>.
\<close>

theorem getUserEmails_gate:
  assumes "run moves (start n) = Some s"
  shows "in_flight s \<le> 5
       \<and> (\<forall>k. \<exists>t. run (take k moves) (start n) = Some t \<and> in_flight t \<le> 5)"
proof -
  have bound: "in_flight t \<le> 5" if "run ms (start n) = Some t" for ms t
    using run_invariant [OF that] start_invariant [of n] in_flight_le_holders [of t]
    by (simp add: capacity_def)
  have "\<exists>t. run (take k moves) (start n) = Some t \<and> in_flight t \<le> 5" for k
    using run_take [OF assms, of k] bound by blast
  with bound [OF assms] show ?thesis by blast
qed

theorem getUserEmails_gate_witness:
  "run [Acquire 0, Acquire 1, Acquire 2, Acquire 3, Acquire 4] (start 6)
     = Some \<lparr>pcs = [InFlight, InFlight, InFlight, InFlight, InFlight, Waiting],
             semaphore = 5, resultChan = []\<rparr>
   \<and> in_flight \<lparr>pcs = [InFlight, InFlight, InFlight, InFlight, InFlight, Waiting],
                 semaphore = 5, resultChan = []\<rparr> \<le> 5
   \<and> in_flight \<lparr>pcs = [InFlight, InFlight, InFlight, InFlight, InFlight, Waiting],
                 semaphore = 5, resultChan = []\<rparr> = 5
   \<and> run [Acquire 0, Acquire 1, Acquire 2, Acquire 3, Acquire 4, Acquire 5] (start 6) = None"
proof -
  have five: "run [Acquire 0, Acquire 1, Acquire 2, Acquire 3, Acquire 4] (start 6)
     = Some \<lparr>pcs = [InFlight, InFlight, InFlight, InFlight, InFlight, Waiting],
             semaphore = 5, resultChan = []\<rparr>"
    by code_simp
  have full: "in_flight \<lparr>pcs = [InFlight, InFlight, InFlight, InFlight, InFlight, Waiting],
                 semaphore = 5, resultChan = []\<rparr> = 5"
    by (simp add: in_flight_def)
  have sixth: "run [Acquire 0, Acquire 1, Acquire 2, Acquire 3, Acquire 4, Acquire 5] (start 6) = None"
    by code_simp
  from getUserEmails_gate [OF five] five full sixth show ?thesis
    by blast
qed

end
